theory Spec2Isabelle
  imports Complex_Main
begin

section \<open>Python values\<close>

text \<open>
  A Python \<open>str\<close> is a sequence of Unicode code points, and \<open>len\<close>, slicing and
  \<open>in\<close> count code points. The rule table, the placeholders and the summaries of the
  manager are Chinese text, so a string is modelled as the list of its code points;
  \<open>asc\<close> embeds an ASCII literal.
\<close>

type_synonym ustr = "nat list"

definition asc :: "string \<Rightarrow> ustr" where
  "asc s = map of_char s"

text \<open>\<open>str.isspace\<close>: the code points Python treats as whitespace in \<open>strip()\<close> and \<open>split()\<close>.\<close>

definition py_isspace :: "nat \<Rightarrow> bool" where
  "py_isspace c = (c \<in> set [9, 10, 11, 12, 13, 28, 29, 30, 31, 32, 133, 160, 5760,
      8192, 8193, 8194, 8195, 8196, 8197, 8198, 8199, 8200, 8201, 8202,
      8232, 8233, 8239, 8287, 12288])"

definition py_strip :: "ustr \<Rightarrow> ustr" where
  "py_strip s = rev (dropWhile py_isspace (rev (dropWhile py_isspace s)))"

text \<open>\<open>str.split()\<close> without arguments: maximal runs of non-whitespace.\<close>

fun py_split :: "ustr \<Rightarrow> ustr \<Rightarrow> ustr list" where
  "py_split cur [] = (if cur = [] then [] else [cur])"
| "py_split cur (c # cs) =
     (if py_isspace c then (if cur = [] then py_split [] cs else cur # py_split [] cs)
      else py_split (cur @ [c]) cs)"

text \<open>\<open>re.split\<close> on a character class: every delimiter ends a piece, empty pieces stay.\<close>

fun split_on :: "(nat \<Rightarrow> bool) \<Rightarrow> ustr \<Rightarrow> ustr \<Rightarrow> ustr list" where
  "split_on d cur [] = [cur]"
| "split_on d cur (c # cs) =
     (if d c then cur # split_on d [] cs else split_on d (cur @ [c]) cs)"

text \<open>\<open>sub in s\<close> on strings.\<close>

fun py_in :: "ustr \<Rightarrow> ustr \<Rightarrow> bool" where
  "py_in sub [] = (sub = [])"
| "py_in sub (c # cs) = (take (length sub) (c # cs) = sub \<or> py_in sub cs)"

text \<open>\<open>sep.join(parts)\<close>.\<close>

fun py_join :: "ustr \<Rightarrow> ustr list \<Rightarrow> ustr" where
  "py_join sep [] = []"
| "py_join sep [p] = p"
| "py_join sep (p # q # ps) = p @ sep @ py_join sep (q # ps)"

text \<open>\<open>xs[:k]\<close> for any integer \<open>k\<close>: a negative \<open>k\<close> counts from the end.\<close>

definition py_take :: "int \<Rightarrow> 'a list \<Rightarrow> 'a list" where
  "py_take k xs = (if 0 \<le> k then take (nat k) xs else take (length xs - nat (- k)) xs)"

text \<open>\<open>xs[-k:]\<close> for a positive literal \<open>k\<close>: the last \<open>k\<close> elements.\<close>

definition py_last_n :: "nat \<Rightarrow> 'a list \<Rightarrow> 'a list" where
  "py_last_n k xs = drop (length xs - k) xs"

text \<open>Decimal rendering of a natural number, as an f-string prints an \<open>int\<close>.\<close>

fun str_of_nat :: "nat \<Rightarrow> ustr" where
  "str_of_nat n = (if n < 10 then [48 + n] else str_of_nat (n div 10) @ [48 + n mod 10])"

declare str_of_nat.simps [simp del]

section \<open>Data model\<close>

text \<open>
  \<open>datetime\<close> values are read as microseconds since the epoch (the resolution of
  \<open>datetime\<close>); the ISO strings the code writes with \<open>isoformat()\<close> and reads back with
  \<open>fromisoformat()\<close> are their renderings. The comparisons the code makes on
  \<open>total_seconds() / 60\<close> and on \<open>timestamp()\<close> are made here on the exact microsecond
  counts. Episodes, messages and candidates read back from the files are taken as the
  code wrote them: every key it reads is present and every timestamp parses.
\<close>

type_synonym timestamp = int

definition minute_us :: int where
  "minute_us = 60 * 1000000"

definition day_us :: int where
  "day_us = 24 * 3600 * 1000000"

type_synonym vec = "rat list"

datatype mval = MStr ustr | MInt int | MTime timestamp

type_synonym metadata = "(ustr \<times> mval) list"

record doc =
  d_id :: ustr
  d_embedding :: vec
  d_content :: ustr
  d_metadata :: metadata

type_synonym collection = "doc list"

record episode =
  ep_id :: ustr
  ep_title :: ustr
  ep_tags :: "ustr list"
  ep_status :: ustr
  ep_created_at :: timestamp
  ep_entity_ids :: "ustr list"

record message =
  m_id :: ustr
  m_role :: ustr
  m_content :: ustr
  m_timestamp :: timestamp
  m_episode_id :: "ustr option"

record candidate =
  c_id :: ustr
  c_type :: ustr
  c_extracted_content :: ustr
  c_source_snippet :: ustr
  c_confidence :: rat
  c_status :: ustr
  c_detected_at :: timestamp
  c_detection_method :: ustr

text \<open>
  A line of \<open>message_cache.jsonl\<close> as \<open>cleanup_old_messages\<close> reads it: a message with an
  ISO timestamp; a line on which \<open>json.loads\<close> raises \<open>JSONDecodeError\<close> or the lookup of
  \<open>"timestamp"\<close> raises \<open>KeyError\<close> (both caught); or a line on which another exception is
  raised (\<open>ValueError\<close> of \<open>fromisoformat\<close>), which nothing catches.
\<close>

datatype log_line = LMsg message | LUnparseable ustr | LMalformed ustr

datatype 'a json_file = Unreadable | Json 'a

datatype error = RuntimeError | ValueError | OverflowError | BackendError ustr

datatype rmatch = MOne ustr | MTuple "ustr list"

datatype where_clause = WEq ustr mval | WNe ustr mval | WAnd "where_clause list"

datatype qres = QOk "(doc \<times> rat) list" | QRaise ustr

text \<open>
  What the manager takes from outside the repository or from outside the process:
  \<open>uuid4().hex[:8]\<close> and \<open>datetime.now()\<close> (the n-th value drawn), the reply of the
  embedding worker to \<open>encode_text\<close> (\<open>None\<close> when it raises \<open>RuntimeError\<close>: warmup
  failed, worker gone, timeout), the flag \<open>is_encoder_ready()\<close>, the regular expression
  engine (\<open>re.findall\<close> with \<open>re.IGNORECASE\<close>, the class \<open>\w\<close>), \<open>str.lower\<close>, the
  rendering \<open>f"{x:.2f}"\<close> of a float, and the nearest-neighbour query of the backing
  index. During one operation the worker's reply
  to a given text is taken as fixed. The worker process, its pool and the threads that
  wait for it are not part of the model: the manager sees them through \<open>encode_reply\<close>
  and \<open>encoder_ready\<close> only.
\<close>

record env =
  uuid4_hex8 :: "nat \<Rightarrow> ustr"
  datetime_now :: "nat \<Rightarrow> timestamp"
  encode_reply :: "ustr \<Rightarrow> vec option"
  encoder_ready :: bool
  re_findall :: "ustr \<Rightarrow> ustr \<Rightarrow> rmatch list"
  re_word :: "nat \<Rightarrow> bool"
  str_lower :: "ustr \<Rightarrow> ustr"
  format_2f :: "rat \<Rightarrow> ustr"
  collection_query :: "collection \<Rightarrow> vec \<Rightarrow> int \<Rightarrow> where_clause option \<Rightarrow> qres"

text \<open>
  The state of a \<open>MemoryManager\<close>: its two stores, the three files under the project
  directory, the fields it keeps in memory, and how many ids and clock readings it has
  drawn. File system errors on writing are not modelled.
\<close>

record manager =
  user_store :: collection
  project_store :: collection
  cache_file :: "log_line list option"
  state_file :: "(episode option \<times> message list) json_file option"
  pending_file :: "candidate list json_file option"
  current_episode :: "episode option"
  current_messages :: "message list"
  pending_entities :: "candidate list"
  uuid_calls :: nat
  clock_calls :: nat

type_synonym 'a outcome = "(error + 'a) \<times> manager"

definition draw_uuid :: "env \<Rightarrow> manager \<Rightarrow> ustr \<times> manager" where
  "draw_uuid E s = (uuid4_hex8 E (uuid_calls s), s\<lparr>uuid_calls := uuid_calls s + 1\<rparr>)"

definition read_clock :: "env \<Rightarrow> manager \<Rightarrow> timestamp \<times> manager" where
  "read_clock E s = (datetime_now E (clock_calls s), s\<lparr>clock_calls := clock_calls s + 1\<rparr>)"

section \<open>Message log maintenance\<close>

record cleanup_report =
  r_status :: ustr
  r_days_kept :: "int option"
  r_removed :: nat
  r_kept :: nat

text \<open>The loop of \<open>cleanup_old_messages\<close> over the lines of the log.\<close>

fun scan_lines :: "int \<Rightarrow> log_line list \<Rightarrow> log_line list \<times> nat \<Rightarrow> error + (log_line list \<times> nat)" where
  "scan_lines cutoff [] acc = Inr acc"
| "scan_lines cutoff (LMsg m # ls) (kept_messages, removed_count) =
     (if m_timestamp m > cutoff then scan_lines cutoff ls (kept_messages @ [LMsg m], removed_count)
      else scan_lines cutoff ls (kept_messages, removed_count + 1))"
| "scan_lines cutoff (LUnparseable l # ls) (kept_messages, removed_count) =
     scan_lines cutoff ls (kept_messages @ [LUnparseable l], removed_count)"
| "scan_lines cutoff (LMalformed l # ls) (kept_messages, removed_count) = Inl ValueError"

definition cleanup_old_messages :: "env \<Rightarrow> manager \<Rightarrow> int \<Rightarrow> cleanup_report outcome" where
  "cleanup_old_messages E s days =
     (case cache_file s of
        None \<Rightarrow> (Inr \<lparr>r_status = asc ''no_cache_file'', r_days_kept = None, r_removed = 0, r_kept = 0\<rparr>, s)
      | Some lines \<Rightarrow>
          (let (t, s1) = read_clock E s;
               cutoff = t - days * day_us
           in case scan_lines cutoff lines ([], 0) of
                Inl e \<Rightarrow> (Inl e, s1)
              | Inr (kept_messages, removed_count) \<Rightarrow>
                  (Inr \<lparr>r_status = asc ''cleaned'', r_days_kept = Some days,
                        r_removed = removed_count, r_kept = length kept_messages\<rparr>,
                   s1\<lparr>cache_file := Some kept_messages\<rparr>)))"

section \<open>Vector store\<close>

text \<open>
  A collection holds the records accepted by \<open>collection.add\<close>, in the order of the calls.
  \<open>collection.add\<close>, the filter language and the metadata scan
  \<open>collection.get(where, limit)\<close> belong to the backing engine; they are written out here
  as the engine behaves: an add whose id the collection already holds is ignored (the
  stored record stays as it is and nothing is raised); a filter is an exact match, a
  not-equal or a conjunction; the scan returns the first \<open>limit\<close> matching records and
  raises \<open>OverflowError\<close> on a negative \<open>limit\<close>. A \<open>limit\<close> above the range of the
  engine's integer type is not modelled.
\<close>

record item =
  i_id :: ustr
  i_content :: ustr
  i_metadata :: metadata
  i_distance :: "rat option"

fun matches :: "where_clause \<Rightarrow> metadata \<Rightarrow> bool" where
  "matches (WEq k v) md = (map_of md k = Some v)"
| "matches (WNe k v) md = (map_of md k \<noteq> Some v)"
| "matches (WAnd ws) md = list_all (\<lambda>w. matches w md) ws"

definition matching :: "collection \<Rightarrow> where_clause option \<Rightarrow> doc list" where
  "matching c w = filter (\<lambda>d. case w of None \<Rightarrow> True | Some q \<Rightarrow> matches q (d_metadata d)) c"

definition collection_get :: "collection \<Rightarrow> where_clause option \<Rightarrow> int \<Rightarrow> error + doc list" where
  "collection_get c w limit =
     (if limit < 0 then Inl OverflowError else Inr (take (nat limit) (matching c w)))"

definition collection_add :: "collection \<Rightarrow> doc \<Rightarrow> collection" where
  "collection_add c d = (if d_id d \<in> set (map d_id c) then c else c @ [d])"

definition to_item :: "doc \<Rightarrow> item" where
  "to_item d = \<lparr>i_id = d_id d, i_content = d_content d, i_metadata = d_metadata d, i_distance = None\<rparr>"

definition encode_text :: "env \<Rightarrow> ustr \<Rightarrow> error + vec" where
  "encode_text E text = (case encode_reply E text of None \<Rightarrow> Inl RuntimeError | Some v \<Rightarrow> Inr v)"

definition store_add :: "env \<Rightarrow> collection \<Rightarrow> ustr \<Rightarrow> ustr \<Rightarrow> metadata \<Rightarrow> error + collection" where
  "store_add E c doc_id content md =
     (case encode_text E content of
        Inl e \<Rightarrow> Inl e
      | Inr vector \<Rightarrow>
          Inr (collection_add c
                 \<lparr>d_id = doc_id, d_embedding = vector, d_content = content, d_metadata = md\<rparr>))"

definition store_get :: "collection \<Rightarrow> ustr \<Rightarrow> item option" where
  "store_get c doc_id = (case filter (\<lambda>d. d_id d = doc_id) c of [] \<Rightarrow> None | d # _ \<Rightarrow> Some (to_item d))"

definition get_by_type :: "collection \<Rightarrow> ustr \<Rightarrow> int \<Rightarrow> ustr \<Rightarrow> error + item list" where
  "get_by_type c entity_type limit status =
     (case collection_get c
             (Some (WAnd [WEq (asc ''type'') (MStr entity_type), WEq (asc ''status'') (MStr status)]))
             limit of
        Inl e \<Rightarrow> Inl e
      | Inr results \<Rightarrow> Inr (map to_item results))"

text \<open>The scoring loop of \<open>_keyword_search\<close>: \<open>scored_items\<close> grows in the order of the scan.\<close>

definition kw_score :: "env \<Rightarrow> ustr list \<Rightarrow> ustr \<Rightarrow> nat" where
  "kw_score E keywords content =
     length (filter (\<lambda>kw. py_in (str_lower E kw) (str_lower E content)) keywords)"

fun score_loop :: "env \<Rightarrow> ustr list \<Rightarrow> doc list \<Rightarrow> (item \<times> nat) list \<Rightarrow> (item \<times> nat) list" where
  "score_loop E keywords [] scored_items = scored_items"
| "score_loop E keywords (d # ds) scored_items =
     (let score = kw_score E keywords (d_content d)
      in if score > 0 \<or> keywords = []
         then score_loop E keywords ds (scored_items @ [(to_item d, score)])
         else score_loop E keywords ds scored_items)"

definition query_keywords :: "ustr \<Rightarrow> ustr list" where
  "query_keywords query = map py_strip (filter (\<lambda>w. length (py_strip w) \<ge> 2) (py_split [] query))"

text \<open>
  \<open>list.sort(key, reverse=True)\<close> is stable: items of equal score keep their order.
  \<open>sort_key\<close> on the negated score is the same stable descending sort.
\<close>

definition keyword_search ::
  "env \<Rightarrow> collection \<Rightarrow> ustr \<Rightarrow> int \<Rightarrow> where_clause option \<Rightarrow> error + item list" where
  "keyword_search E c query top_k w =
     (let keywords = query_keywords query
      in case collection_get c w (top_k * 10) of
           Inl e \<Rightarrow> Inl e
         | Inr results \<Rightarrow>
             if results = [] then Inr []
             else Inr (map fst (py_take top_k
                    (sort_key (\<lambda>p. - int (snd p)) (score_loop E keywords results [])))))"

definition is_index_error :: "env \<Rightarrow> ustr \<Rightarrow> bool" where
  "is_index_error E error_msg =
     (py_in (asc ''Error finding id'') error_msg \<or> py_in (asc ''finding id'') (str_lower E error_msg))"

definition format_results :: "(doc \<times> rat) list \<Rightarrow> bool \<Rightarrow> item list" where
  "format_results results include_distances =
     map (\<lambda>(d, dist). (to_item d)\<lparr>i_distance := (if include_distances then Some dist else None)\<rparr>) results"

definition vector_search ::
  "env \<Rightarrow> collection \<Rightarrow> ustr \<Rightarrow> int \<Rightarrow> where_clause option \<Rightarrow> bool \<Rightarrow> error + item list" where
  "vector_search E c query top_k w include_distances =
     (case encode_text E query of
        Inl e \<Rightarrow> Inl e
      | Inr vector \<Rightarrow>
          (case collection_query E c vector top_k w of
             QRaise error_msg \<Rightarrow>
               if is_index_error E error_msg then keyword_search E c query top_k w
               else Inl (BackendError error_msg)
           | QOk results \<Rightarrow> Inr (format_results results include_distances)))"

definition search ::
  "env \<Rightarrow> collection \<Rightarrow> ustr \<Rightarrow> int \<Rightarrow> where_clause option \<Rightarrow> bool \<Rightarrow> error + item list" where
  "search E c query top_k w include_distances = vector_search E c query top_k w include_distances"

section \<open>Memory manager: constants\<close>

record rule =
  rl_patterns :: "ustr list"
  rl_keywords :: "ustr list"
  rl_min_confidence :: rat

definition USER_LEVEL_TYPES :: "ustr list" where
  "USER_LEVEL_TYPES = [asc ''Preference'', asc ''Concept'', asc ''Habit'']"

definition AUTO_CONFIRM_THRESHOLD :: rat where
  "AUTO_CONFIRM_THRESHOLD = 85 / 100"

definition STALE_EPISODE_MINUTES :: int where
  "STALE_EPISODE_MINUTES = 30"

text \<open>The rule table, in the order the dictionary is written; Chinese text as code points.\<close>

definition DETECTION_RULES :: "(ustr \<times> rule) list" where
  "DETECTION_RULES =
   [(asc ''Decision'',
     \<lparr>rl_patterns =
        [asc ''(?:'' @ [25105] @ asc ''|'' @ [25105, 20204] @ asc '')?(?:'' @ [20915, 23450] @ asc ''|'' @ [30830, 23450] @ asc ''|'' @ [36873, 25321] @ asc ''|'' @ [37319, 29992] @ asc ''|'' @ [20351, 29992] @ asc '')(?:'' @ [20102] @ asc '')?(.{5,50}?)(?:'' @ [26041, 26696] @ asc ''|'' @ [26041, 24335] @ asc ''|'' @ [26041, 27861] @ asc ''|'' @ [26469] @ asc ''|'' @ [20316, 20026] @ asc ''|'' @ [36827, 34892] @ asc '')?'',
         asc ''(?:'' @ [26368, 32456] @ asc ''|'' @ [26368, 21518] @ asc '')?(?:'' @ [36873, 25321] @ asc ''|'' @ [37319, 29992] @ asc ''|'' @ [20915, 23450] @ asc '')(?:'' @ [20102] @ asc '')?(.{5,50})'',
         asc ''(.{5,30}?)(?:'' @ [26159] @ asc ''|'' @ [20316, 20026] @ asc '')(?:'' @ [26368, 20339] @ asc ''|'' @ [26368, 22909] @ asc ''|'' @ [26356, 22909, 30340] @ asc '')?(?:'' @ [36873, 25321] @ asc ''|'' @ [26041, 26696] @ asc '')''],
      rl_keywords = [[20915, 23450], [37319, 29992], [36873, 25321], [30830, 23450, 20351, 29992],
                  [20915, 31574], [25970, 23450]],
      rl_min_confidence = 7 / 10\<rparr>),
    (asc ''Architecture'',
     \<lparr>rl_patterns =
        [asc ''(?:'' @ [37319, 29992] @ asc ''|'' @ [20351, 29992] @ asc ''|'' @ [22522, 20110] @ asc '')(.{5,50}?)(?:'' @ [26550, 26500] @ asc ''|'' @ [35774, 35745] @ asc ''|'' @ [27169, 24335] @ asc ''|'' @ [32467, 26500] @ asc '')'',
         asc ''(?:'' @ [26550, 26500] @ asc ''|'' @ [35774, 35745] @ asc ''|'' @ [32467, 26500] @ asc '')(?:'' @ [26159] @ asc ''|'' @ [20026] @ asc ''|'' @ [37319, 29992] @ asc '')(.{5,50})'',
         asc ''(.{5,30}?)(?:'' @ [20998, 23618] @ asc ''|'' @ [27169, 22359, 21270] @ asc ''|'' @ [24494, 26381, 21153] @ asc ''|'' @ [21333, 20307] @ asc '')''],
      rl_keywords = [[26550, 26500], [35774, 35745, 27169, 24335], [20998, 23618], [27169, 22359],
                  [32452, 20214, 32467, 26500]],
      rl_min_confidence = 7 / 10\<rparr>),
    (asc ''Preference'',
     \<lparr>rl_patterns =
        [asc ''(?:'' @ [25105] @ asc ''|'' @ [29992, 25143] @ asc '')?(?:'' @ [21916, 27426] @ asc ''|'' @ [20559, 22909] @ asc ''|'' @ [20542, 21521, 20110] @ asc ''|'' @ [26356, 24895, 24847] @ asc '')(.{5,50})'',
         asc ''(?:prefer|'' @ [20559, 22909] @ asc '')(?:'' @ [20351, 29992] @ asc ''|'' @ [29992] @ asc '')?(.{5,50})''],
      rl_keywords = [[21916, 27426], [20559, 22909], [20542, 21521, 20110], asc ''prefer'',
                  [26356, 21916, 27426]],
      rl_min_confidence = 6 / 10\<rparr>),
    (asc ''Concept'',
     \<lparr>rl_patterns =
        [asc ''(.{2,20}?)(?:'' @ [26159, 25351] @ asc ''|'' @ [26159, 20160, 20040] @ asc ''|'' @ [30340, 24847, 24605, 26159] @ asc ''|'' @ [23450, 20041, 20026] @ asc '')(.{10,100})'',
         asc ''(?:'' @ [20160, 20040, 26159] @ asc ''|'' @ [35299, 37322, 19968, 19979] @ asc '')(.{2,20})'',
         [25105, 26159] @ asc ''(.{2,20}?)(?:'' @ [65292] @ asc ''|,|'' @ [12290] @ asc ''|$)'',
         [25105, 21483] @ asc ''(.{2,10})'',
         [25105, 30340, 21517, 23383, 26159] @ asc ''(.{2,10})'',
         asc ''(?:'' @ [25105] @ asc ''|'' @ [29992, 25143] @ asc '')'' @ [26159] @ asc ''(.{2,30}?)(?:'' @ [30340] @ asc ''|'' @ [65292] @ asc ''|,|'' @ [12290] @ asc ''|$)''],
      rl_keywords = [[26159, 20160, 20040], [20160, 20040, 26159], [24847, 24605, 26159], [23450, 20041],
                  [27010, 24565], [35299, 37322], [25105, 26159], [25105, 21483]],
      rl_min_confidence = 5 / 10\<rparr>),
    (asc ''Habit'',
     \<lparr>rl_patterns =
        [asc ''(?:'' @ [25105] @ asc ''|'' @ [29992, 25143] @ asc '')?(?:'' @ [20064, 24815] @ asc ''|'' @ [24635, 26159] @ asc ''|'' @ [19968, 33324, 20250] @ asc ''|'' @ [36890, 24120] @ asc ''|'' @ [27599, 27425, 37117] @ asc '')(.{5,50})''],
      rl_keywords = [[20064, 24815], [24635, 26159], [19968, 33324, 20250], [36890, 24120],
                  [27599, 27425, 37117]],
      rl_min_confidence = 6 / 10\<rparr>),
    (asc ''File'',
     \<lparr>rl_patterns =
        [asc ''(.{5,50}'' @ [92] @ asc ''.(?:ts|js|vue|py|java|go))(?:'' @ [25991, 20214] @ asc '')?(?:'' @ [36127, 36131] @ asc ''|'' @ [22788, 29702] @ asc ''|'' @ [23454, 29616] @ asc ''|'' @ [21253, 21547] @ asc '')(.{5,50})'',
         asc ''(?:'' @ [22312] @ asc ''|'' @ [20462, 25913] @ asc ''|'' @ [21019, 24314] @ asc ''|'' @ [26597, 30475] @ asc '')(.{5,50}'' @ [92] @ asc ''.(?:ts|js|vue|py|java|go))''],
      rl_keywords = [asc ''.ts'', asc ''.js'', asc ''.vue'', asc ''.py'', [25991, 20214, 36127, 36131],
                  [25991, 20214, 22788, 29702]],
      rl_min_confidence = 8 / 10\<rparr>)]"

definition PATTERN_BONUS :: rat where
  "PATTERN_BONUS = 2 / 10"




definition DEGRADED_NOTE :: ustr where
  "DEGRADED_NOTE = [21521, 37327, 32534, 30721, 22120, 27491, 22312, 21021, 22987, 21270, 20013,
     65292, 24403, 21069, 20351, 29992, 20851, 38190, 35789, 21305, 37197, 65288, 32467, 26524,
     21487, 33021, 19981, 22815, 31934, 30830, 65289]"

section \<open>Memory manager: persistence\<close>

definition save_pending_entities :: "manager \<Rightarrow> manager" where
  "save_pending_entities s = s\<lparr>pending_file := Some (Json (pending_entities s))\<rparr>"

definition save_active_episode :: "manager \<Rightarrow> manager" where
  "save_active_episode s = s\<lparr>state_file := Some (Json (current_episode s, current_messages s))\<rparr>"

definition load_active_episode :: "manager \<Rightarrow> manager" where
  "load_active_episode s =
     (case state_file s of
        None \<Rightarrow> s
      | Some Unreadable \<Rightarrow> s
      | Some (Json (ep, msgs)) \<Rightarrow> s\<lparr>current_episode := ep, current_messages := msgs\<rparr>)"

definition load_pending_entities :: "manager \<Rightarrow> manager" where
  "load_pending_entities s =
     (case pending_file s of
        None \<Rightarrow> s
      | Some Unreadable \<Rightarrow> s\<lparr>pending_entities := []\<rparr>
      | Some (Json ps) \<Rightarrow> s\<lparr>pending_entities := ps\<rparr>)"

section \<open>Message cleaning\<close>










section \<open>Candidate detection\<close>

text \<open>
  The state of one pass of \<open>_detect_candidates\<close>: the candidates so far, the set
  \<open>detected_contents\<close>, and the manager (for the ids and clock readings drawn).
\<close>

type_synonym dstate = "candidate list \<times> ustr set \<times> manager"

definition extracted_of :: "rmatch \<Rightarrow> ustr" where
  "extracted_of m =
     (case m of
        MTuple groups \<Rightarrow> py_strip (py_join (asc '' '') (filter (\<lambda>g. g \<noteq> []) groups))
      | MOne g \<Rightarrow> py_strip g)"

definition new_candidate ::
  "env \<Rightarrow> manager \<Rightarrow> ustr \<Rightarrow> ustr \<Rightarrow> ustr \<Rightarrow> rat \<Rightarrow> ustr \<Rightarrow> candidate \<times> manager" where
  "new_candidate E s entity_type extracted content confidence method =
     (let (u, s1) = draw_uuid E s;
          (t, s2) = read_clock E s1
      in (\<lparr>c_id = asc ''cand_'' @ u, c_type = entity_type,
           c_extracted_content = take 200 extracted, c_source_snippet = take 300 content,
           c_confidence = confidence, c_status = asc ''pending'', c_detected_at = t,
           c_detection_method = method\<rparr>, s2))"

fun match_loop :: "env \<Rightarrow> ustr \<Rightarrow> rule \<Rightarrow> ustr \<Rightarrow> rmatch list \<Rightarrow> dstate \<Rightarrow> dstate" where
  "match_loop E entity_type rules content [] st = st"
| "match_loop E entity_type rules content (m # ms) (candidates, detected_contents, s) =
     (let extracted = extracted_of m
      in if extracted \<noteq> [] \<and> length extracted > 3 \<and> extracted \<notin> detected_contents
         then (let (c, s') = new_candidate E s entity_type extracted content
                               (rl_min_confidence rules + PATTERN_BONUS) (asc ''pattern'')
               in match_loop E entity_type rules content ms
                    (candidates @ [c], insert extracted detected_contents, s'))
         else match_loop E entity_type rules content ms (candidates, detected_contents, s))"

fun pattern_loop :: "env \<Rightarrow> ustr \<Rightarrow> rule \<Rightarrow> ustr \<Rightarrow> ustr list \<Rightarrow> dstate \<Rightarrow> dstate" where
  "pattern_loop E entity_type rules content [] st = st"
| "pattern_loop E entity_type rules content (pattern # ps) st =
     pattern_loop E entity_type rules content ps
       (match_loop E entity_type rules content (re_findall E pattern content) st)"

definition sentence_delimiter :: "nat \<Rightarrow> bool" where
  "sentence_delimiter c = (c \<in> set [12290, 65281, 65311, 10])"

definition has_keyword :: "rule \<Rightarrow> ustr \<Rightarrow> bool" where
  "has_keyword rules text = list_ex (\<lambda>kw. py_in kw text) (rl_keywords rules)"

text \<open>The loop over the sentences: it stops (\<open>break\<close>) at the first sentence that holds a
  keyword and is longer than 5 characters, whether or not that sentence is added.\<close>

fun sentence_loop :: "env \<Rightarrow> ustr \<Rightarrow> rule \<Rightarrow> ustr \<Rightarrow> ustr list \<Rightarrow> dstate \<Rightarrow> dstate" where
  "sentence_loop E entity_type rules content [] st = st"
| "sentence_loop E entity_type rules content (sentence # rest) (candidates, detected_contents, s) =
     (if has_keyword rules sentence \<and> length sentence > 5
      then (if sentence \<notin> detected_contents
            then (let (c, s') = new_candidate E s entity_type sentence content
                                  (rl_min_confidence rules) (asc ''keyword'')
                  in (candidates @ [c], insert sentence detected_contents, s'))
            else (candidates, detected_contents, s))
      else sentence_loop E entity_type rules content rest (candidates, detected_contents, s))"

definition keyword_stage :: "env \<Rightarrow> ustr \<Rightarrow> rule \<Rightarrow> ustr \<Rightarrow> dstate \<Rightarrow> dstate" where
  "keyword_stage E entity_type rules content st =
     (case st of (candidates, detected_contents, s) \<Rightarrow>
        if has_keyword rules content
        then (if entity_type \<notin> set (map c_type candidates)
              then sentence_loop E entity_type rules content
                     (split_on sentence_delimiter [] content) st
              else st)
        else st)"

fun rules_loop :: "env \<Rightarrow> ustr \<Rightarrow> (ustr \<times> rule) list \<Rightarrow> dstate \<Rightarrow> dstate" where
  "rules_loop E content [] st = st"
| "rules_loop E content ((entity_type, rules) # rest) st =
     rules_loop E content rest
       (keyword_stage E entity_type rules content
          (pattern_loop E entity_type rules content (rl_patterns rules) st))"

definition detect_candidates_with ::
  "(ustr \<times> rule) list \<Rightarrow> env \<Rightarrow> manager \<Rightarrow> ustr \<Rightarrow> candidate list \<times> manager" where
  "detect_candidates_with table E s content =
     (case rules_loop E content table ([], {}, s) of (candidates, _, s') \<Rightarrow> (candidates, s'))"

definition detect_candidates :: "env \<Rightarrow> manager \<Rightarrow> ustr \<Rightarrow> candidate list \<times> manager" where
  "detect_candidates E s content = detect_candidates_with DETECTION_RULES E s content"

section \<open>Entities\<close>

record entity =
  e_id :: ustr
  e_type :: ustr
  e_content :: ustr
  e_metadata :: metadata

definition episode_id_or_empty :: "manager \<Rightarrow> ustr" where
  "episode_id_or_empty s = (case current_episode s of None \<Rightarrow> [] | Some ep \<Rightarrow> ep_id ep)"

definition entity_metadata :: "ustr \<Rightarrow> ustr option \<Rightarrow> ustr list option \<Rightarrow> ustr \<Rightarrow> timestamp \<Rightarrow> metadata" where
  "entity_metadata entity_type reason related_ids episode_id t =
     [(asc ''type'', MStr entity_type),
      (asc ''status'', MStr (asc ''active'')),
      (asc ''reason'', MStr (case reason of None \<Rightarrow> [] | Some r \<Rightarrow> r)),
      (asc ''related_ids'', MStr (py_join (asc '','') (case related_ids of None \<Rightarrow> [] | Some ids \<Rightarrow> ids))),
      (asc ''episode_id'', MStr episode_id),
      (asc ''created_at'', MTime t)]"

text \<open>
  \<open>add_entity\<close>: when \<open>VectorStore.add\<close> raises, the exception leaves the method before the
  episode is touched; the id and the clock reading have been drawn by then.
\<close>

definition add_entity ::
  "env \<Rightarrow> manager \<Rightarrow> ustr \<Rightarrow> ustr \<Rightarrow> ustr option \<Rightarrow> ustr list option \<Rightarrow> entity outcome" where
  "add_entity E s entity_type content reason related_ids =
     (let (u, s1) = draw_uuid E s;
          entity_id = asc ''ent_'' @ u;
          (t, s2) = read_clock E s1;
          md = entity_metadata entity_type reason related_ids (episode_id_or_empty s2) t;
          stored =
            (if entity_type \<in> set USER_LEVEL_TYPES
             then (case store_add E (user_store s2) entity_id content md of
                     Inl e \<Rightarrow> Inl e | Inr c \<Rightarrow> Inr (s2\<lparr>user_store := c\<rparr>))
             else (case store_add E (project_store s2) entity_id content md of
                     Inl e \<Rightarrow> Inl e | Inr c \<Rightarrow> Inr (s2\<lparr>project_store := c\<rparr>)))
      in case stored of
           Inl e \<Rightarrow> (Inl e, s2)
         | Inr s3 \<Rightarrow>
             (let s4 = (case current_episode s3 of
                          None \<Rightarrow> s3
                        | Some ep \<Rightarrow>
                            save_active_episode
                              (s3\<lparr>current_episode := Some (ep\<lparr>ep_entity_ids := ep_entity_ids ep @ [entity_id]\<rparr>)\<rparr>))
              in (Inr \<lparr>e_id = entity_id, e_type = entity_type, e_content = content, e_metadata = md\<rparr>, s4)))"

text \<open>The reason \<open>_detect_and_process_entities\<close> passes to \<open>add_entity\<close>.\<close>

definition auto_confirm_reason :: "env \<Rightarrow> rat \<Rightarrow> ustr" where
  "auto_confirm_reason E confidence =
     [33258, 21160, 30830, 35748] @ asc '' ('' @ [32622, 20449, 24230] @ asc '': '' @
     format_2f E confidence @ asc '')''"

text \<open>The loop of \<open>_detect_and_process_entities\<close> over the candidates; an exception of
  \<open>add_entity\<close> ends it.\<close>

fun process_candidates :: "env \<Rightarrow> manager \<Rightarrow> candidate list \<Rightarrow> unit outcome" where
  "process_candidates E s [] = (Inr (), s)"
| "process_candidates E s (candidate # rest) =
     (if c_confidence candidate \<ge> AUTO_CONFIRM_THRESHOLD
      then (case add_entity E s (c_type candidate) (c_extracted_content candidate)
                   (Some (auto_confirm_reason E (c_confidence candidate))) None of
              (Inl e, s') \<Rightarrow> (Inl e, s')
            | (Inr _, s') \<Rightarrow> process_candidates E s' rest)
      else process_candidates E (s\<lparr>pending_entities := pending_entities s @ [candidate]\<rparr>) rest)"

definition detect_and_process_entities :: "env \<Rightarrow> manager \<Rightarrow> ustr \<Rightarrow> unit outcome" where
  "detect_and_process_entities E s content =
     (let (candidates, s1) = detect_candidates E s content
      in case process_candidates E s1 candidates of
           (Inl e, s2) \<Rightarrow> (Inl e, s2)
         | (Inr _, s2) \<Rightarrow> (Inr (), save_pending_entities s2))"



definition confirm_entity :: "env \<Rightarrow> manager \<Rightarrow> ustr \<Rightarrow> ustr \<Rightarrow> ustr \<Rightarrow> entity outcome" where
  "confirm_entity E s candidate_id entity_type content =
     (let s1 = s\<lparr>pending_entities := filter (\<lambda>p. c_id p \<noteq> candidate_id) (pending_entities s)\<rparr>;
          s2 = save_pending_entities s1
      in add_entity E s2 entity_type content None None)"

definition reject_candidate :: "manager \<Rightarrow> ustr \<Rightarrow> manager" where
  "reject_candidate s candidate_id =
     save_pending_entities
       (s\<lparr>pending_entities := filter (\<lambda>p. c_id p \<noteq> candidate_id) (pending_entities s)\<rparr>)"

section \<open>Episodes\<close>

definition role_label :: "ustr \<Rightarrow> ustr" where
  "role_label role = (if role = asc ''user'' then [29992, 25143] else [21161, 25163])"

definition generate_summary :: "episode \<Rightarrow> message list \<Rightarrow> ustr" where
  "generate_summary ep msgs =
     (if msgs = [] then ep_title ep
      else py_join [10]
             ((ep_title ep @ asc '':'') #
              map (\<lambda>msg. asc ''- '' @ role_label (m_role msg) @ asc '': '' @ take 100 (m_content msg))
                  (py_last_n 5 msgs)))"

definition episode_metadata :: "episode \<Rightarrow> nat \<Rightarrow> timestamp \<Rightarrow> metadata" where
  "episode_metadata ep message_count closed_at =
     [(asc ''title'', MStr (ep_title ep)),
      (asc ''tags'', MStr (py_join (asc '','') (ep_tags ep))),
      (asc ''status'', MStr (asc ''completed'')),
      (asc ''entity_ids'', MStr (py_join (asc '','') (ep_entity_ids ep))),
      (asc ''type'', MStr (asc ''Episode'')),
      (asc ''message_count'', MInt (int message_count)),
      (asc ''created_at'', MTime (ep_created_at ep)),
      (asc ''closed_at'', MTime closed_at)]"

text \<open>\<open>close_episode\<close> returns the closed episode with its summary, or \<open>None\<close>.\<close>

definition close_episode :: "env \<Rightarrow> manager \<Rightarrow> ustr option \<Rightarrow> (episode \<times> ustr) option outcome" where
  "close_episode E s summary =
     (case current_episode s of
        None \<Rightarrow> (Inr None, s)
      | Some ep \<Rightarrow>
          (let summary' = (case summary of
                             None \<Rightarrow> generate_summary ep (current_messages s)
                           | Some sm \<Rightarrow> if sm = [] then generate_summary ep (current_messages s) else sm);
               (t, s1) = read_clock E s;
               md = episode_metadata ep (length (current_messages s1)) t
           in case store_add E (project_store s1) (ep_id ep) summary' md of
                Inl e \<Rightarrow> (Inl e, s1)
              | Inr c \<Rightarrow>
                  (Inr (Some (ep, summary')),
                   save_active_episode
                     (s1\<lparr>project_store := c, current_episode := None, current_messages := []\<rparr>))))"

definition start_episode :: "env \<Rightarrow> manager \<Rightarrow> ustr \<Rightarrow> ustr list option \<Rightarrow> episode outcome" where
  "start_episode E s title tags =
     (case (if current_episode s \<noteq> None then close_episode E s None else (Inr None, s)) of
        (Inl e, s1) \<Rightarrow> (Inl e, s1)
      | (Inr _, s1) \<Rightarrow>
          (let (u, s2) = draw_uuid E s1;
               (t, s3) = read_clock E s2;
               ep = \<lparr>ep_id = asc ''ep_'' @ u, ep_title = title,
                     ep_tags = (case tags of None \<Rightarrow> [] | Some ts \<Rightarrow> ts),
                     ep_status = asc ''active'', ep_created_at = t, ep_entity_ids = []\<rparr>
           in (Inr ep, save_active_episode (s3\<lparr>current_episode := Some ep, current_messages := []\<rparr>))))"

definition stale_summary :: "ustr \<Rightarrow> int \<Rightarrow> ustr" where
  "stale_summary episode_title stale_us =
     asc ''['' @ [33258, 21160, 20851, 38381] @ asc ''] '' @ episode_title @
     asc '' ('' @ [38386, 32622] @ asc '' '' @ str_of_nat (nat (stale_us div minute_us)) @
     asc '' '' @ [20998, 38047, 21518, 33258, 21160, 24402, 26723] @ asc '')''"

definition close_stale_episode :: "env \<Rightarrow> manager \<Rightarrow> unit outcome" where
  "close_stale_episode E s =
     (case current_episode s of
        None \<Rightarrow> (Inr (), s)
      | Some ep \<Rightarrow>
          (let last_activity = (if current_messages s \<noteq> [] then m_timestamp (last (current_messages s))
                                else ep_created_at ep);
               (t, s1) = read_clock E s;
               stale_us = t - last_activity
           in if stale_us \<ge> STALE_EPISODE_MINUTES * minute_us
              then (case close_episode E s1 (Some (stale_summary (ep_title ep) stale_us)) of
                      (Inl e, s2) \<Rightarrow> (Inl e, s2)
                    | (Inr _, s2) \<Rightarrow> (Inr (), s2))
              else (Inr (), s1)))"

text \<open>
  \<open>MemoryManager.__init__\<close> on what is on disk (the stores, the files): the fields in
  memory start empty, the two files are loaded, and a stale episode is closed.
\<close>

definition init :: "env \<Rightarrow> manager \<Rightarrow> unit outcome" where
  "init E disk =
     close_stale_episode E
       (load_pending_entities
          (load_active_episode
             (disk\<lparr>current_episode := None, current_messages := [], pending_entities := []\<rparr>)))"

section \<open>Retrieval\<close>

record recall_result =
  rr_episodes :: "item list"
  rr_entities :: "item list"
  rr_current_episode :: "episode option"
  rr_recent_messages :: "message list"
  rr_note :: "ustr option"

definition recall :: "env \<Rightarrow> manager \<Rightarrow> ustr \<Rightarrow> int \<Rightarrow> bool \<Rightarrow> error + recall_result" where
  "recall E s query top_k include_deprecated =
     (let using_vector_search = encoder_ready E;
          entity_filter = (if include_deprecated then None
                           else Some (WEq (asc ''status'') (MStr (asc ''active''))));
          episode_filter = WAnd [WEq (asc ''type'') (MStr (asc ''Episode'')),
                                 WEq (asc ''status'') (MStr (asc ''completed''))];
          entity_filter_with_type =
            (if \<not> include_deprecated
             then WAnd [WNe (asc ''type'') (MStr (asc ''Episode'')),
                        WEq (asc ''status'') (MStr (asc ''active''))]
             else WNe (asc ''type'') (MStr (asc ''Episode'')))
      in case search E (project_store s) query top_k (Some entity_filter_with_type) False of
           Inl e \<Rightarrow> Inl e
         | Inr project_entities \<Rightarrow>
             (case search E (project_store s) query top_k (Some episode_filter) False of
                Inl e \<Rightarrow> Inl e
              | Inr episodes \<Rightarrow>
                  (case search E (user_store s) query top_k entity_filter False of
                     Inl e \<Rightarrow> Inl e
                   | Inr user_results \<Rightarrow>
                       Inr \<lparr>rr_episodes = episodes,
                            rr_entities = project_entities @ user_results,
                            rr_current_episode = current_episode s,
                            rr_recent_messages = py_last_n 5 (current_messages s),
                            rr_note = (if \<not> using_vector_search then Some DEGRADED_NOTE else None)\<rparr>)))"

definition search_by_type :: "env \<Rightarrow> manager \<Rightarrow> ustr \<Rightarrow> ustr option \<Rightarrow> int \<Rightarrow> error + item list" where
  "search_by_type E s entity_type query top_k =
     (let store = (if entity_type \<in> set USER_LEVEL_TYPES then user_store s else project_store s);
          status = (if entity_type = asc ''Episode'' then asc ''completed'' else asc ''active'')
      in case query of
           None \<Rightarrow> get_by_type store entity_type top_k status
         | Some q \<Rightarrow>
             if q \<noteq> []
             then search E store q top_k
                    (Some (WAnd [WEq (asc ''type'') (MStr entity_type), WEq (asc ''status'') (MStr status)])) False
             else get_by_type store entity_type top_k status)"

section \<open>Notions used in the statements\<close>

text \<open>
  A log line is removed by \<open>cleanup_old_messages\<close> at time \<open>t\<close> when it is a message whose
  age \<open>t - timestamp\<close> is at least \<open>days\<close> days. \<open>age_exceeds\<close> is the reading "the age
  exceeds \<open>days\<close> days".
\<close>

definition line_removed :: "timestamp \<Rightarrow> int \<Rightarrow> log_line \<Rightarrow> bool" where
  "line_removed t days l = (case l of LMsg m \<Rightarrow> t - m_timestamp m \<ge> days * day_us | _ \<Rightarrow> False)"

definition age_exceeds :: "timestamp \<Rightarrow> int \<Rightarrow> log_line \<Rightarrow> bool" where
  "age_exceeds t days l = (case l of LMsg m \<Rightarrow> t - m_timestamp m > days * day_us | _ \<Rightarrow> False)"

definition is_malformed :: "log_line \<Rightarrow> bool" where
  "is_malformed l = (case l of LMalformed _ \<Rightarrow> True | _ \<Rightarrow> False)"

text \<open>
  A message of the given age in days, and an environment whose clock shows \<open>t\<close>. Its
  \<open>format_2f\<close> writes the two decimals of a confidence given in hundredths, as
  \<open>f"{x:.2f}"\<close> does for the confidences of the rule table (\<open>0.90\<close> for 0.7 + 0.2).
\<close>

definition two_decimals :: "rat \<Rightarrow> ustr" where
  "two_decimals q =
     (let n = nat (round (q * 100))
      in str_of_nat (n div 100) @ asc ''.'' @ [48 + (n div 10) mod 10, 48 + n mod 10])"

definition aged_message :: "timestamp \<Rightarrow> int \<Rightarrow> message" where
  "aged_message t age_days =
     \<lparr>m_id = asc ''msg_0000000'' @ str_of_nat (nat age_days), m_role = asc ''user'', m_content = asc ''hello'',
      m_timestamp = t - age_days * day_us, m_episode_id = None\<rparr>"

definition quiet_env :: "timestamp \<Rightarrow> env" where
  "quiet_env t =
     \<lparr>uuid4_hex8 = (\<lambda>n. asc ''0000000'' @ str_of_nat (n mod 10)),
      datetime_now = (\<lambda>n. t),
      encode_reply = (\<lambda>text. Some [1, 0]),
      encoder_ready = True,
      re_findall = (\<lambda>pattern text. []),
      re_word = (\<lambda>c. (48 \<le> c \<and> c \<le> 57) \<or> (65 \<le> c \<and> c \<le> 90) \<or> c = 95 \<or> (97 \<le> c \<and> c \<le> 122)),
      str_lower = map (\<lambda>c. if 65 \<le> c \<and> c \<le> 90 then c + 32 else c),
      format_2f = two_decimals,
      collection_query = (\<lambda>c v k w. QOk [])\<rparr>"

definition empty_manager :: manager where
  "empty_manager =
     \<lparr>user_store = [], project_store = [], cache_file = None, state_file = None,
      pending_file = None, current_episode = None, current_messages = [],
      pending_entities = [], uuid_calls = 0, clock_calls = 0\<rparr>"

text \<open>Two manager states hold the same message log and the same message list.\<close>

definition same_log :: "manager \<Rightarrow> manager \<Rightarrow> bool" where
  "same_log s s' = (cache_file s' = cache_file s \<and> current_messages s' = current_messages s)"


text \<open>
  The record \<open>add_entity\<close> hands to the store, given the vector \<open>v\<close> the encoder returned:
  its id is the next id drawn, its metadata carries the type, the status \<open>active\<close> and
  the id of the active episode.
\<close>

definition entity_doc ::
  "env \<Rightarrow> manager \<Rightarrow> ustr \<Rightarrow> ustr \<Rightarrow> ustr option \<Rightarrow> ustr list option \<Rightarrow> vec \<Rightarrow> doc" where
  "entity_doc E s entity_type content reason related_ids v =
     \<lparr>d_id = asc ''ent_'' @ uuid4_hex8 E (uuid_calls s), d_embedding = v, d_content = content,
      d_metadata = entity_metadata entity_type reason related_ids (episode_id_or_empty s)
                     (datetime_now E (clock_calls s))\<rparr>"

definition link_entity :: "ustr \<Rightarrow> episode \<Rightarrow> episode" where
  "link_entity entity_id ep = ep\<lparr>ep_entity_ids := ep_entity_ids ep @ [entity_id]\<rparr>"

definition is_user_level :: "ustr \<Rightarrow> bool" where
  "is_user_level entity_type =
     (entity_type = asc ''Preference'' \<or> entity_type = asc ''Concept'' \<or> entity_type = asc ''Habit'')"

definition unknown_candidate :: "manager \<Rightarrow> ustr \<Rightarrow> bool" where
  "unknown_candidate s candidate_id = (candidate_id \<notin> set (map c_id (pending_entities s)))"

text \<open>A candidate as \<open>_detect_candidates\<close> builds it, for the examples.\<close>

definition sample_candidate :: "string \<Rightarrow> string \<Rightarrow> ustr \<Rightarrow> rat \<Rightarrow> candidate" where
  "sample_candidate hex entity_type content confidence =
     \<lparr>c_id = asc ''cand_'' @ asc hex, c_type = asc entity_type, c_extracted_content = content,
      c_source_snippet = content, c_confidence = confidence, c_status = asc ''pending'',
      c_detected_at = 1800000000000000, c_detection_method = asc ''pattern''\<rparr>"

definition worker_down :: "env \<Rightarrow> env" where
  "worker_down E = E\<lparr>encode_reply := (\<lambda>text. None), encoder_ready := False\<rparr>"

text \<open>
  The candidates that \<open>_detect_and_process_entities\<close> confirms by itself, and the records
  they become: the k-th confirmed candidate takes the k-th id and clock reading drawn
  from \<open>u\<close> and \<open>t\<close> on; \<open>eid\<close> is the id of the active episode (or the empty string).
\<close>

definition auto_confirmed :: "candidate \<Rightarrow> bool" where
  "auto_confirmed c = (c_confidence c \<ge> AUTO_CONFIRM_THRESHOLD)"

fun promotions :: "env \<Rightarrow> ustr \<Rightarrow> nat \<Rightarrow> nat \<Rightarrow> candidate list \<Rightarrow> (candidate \<times> doc) list" where
  "promotions E eid u t [] = []"
| "promotions E eid u t (c # cs) =
     (if auto_confirmed c
      then (c, \<lparr>d_id = asc ''ent_'' @ uuid4_hex8 E u,
                d_embedding = the (encode_reply E (c_extracted_content c)),
                d_content = c_extracted_content c,
                d_metadata = entity_metadata (c_type c) (Some (auto_confirm_reason E (c_confidence c)))
                               None eid (datetime_now E t)\<rparr>)
           # promotions E eid (u + 1) (t + 1) cs
      else promotions E eid u t cs)"

definition promoted_of :: "candidate \<times> doc \<Rightarrow> bool" where
  "promoted_of p =
     (d_content (snd p) = c_extracted_content (fst p)
      \<and> map_of (d_metadata (snd p)) (asc ''status'') = Some (MStr (asc ''active''))
      \<and> map_of (d_metadata (snd p)) (asc ''type'') = Some (MStr (c_type (fst p))))"

text \<open>
  The store after the adds of several records, one after the other, and the case in
  which every add takes effect: the ids are pairwise different and none is in the store.
\<close>

definition add_all :: "collection \<Rightarrow> doc list \<Rightarrow> collection" where
  "add_all c ds = foldl collection_add c ds"

definition ids_new :: "collection \<Rightarrow> doc list \<Rightarrow> bool" where
  "ids_new c ds = (distinct (map d_id ds) \<and> list_all (\<lambda>d. d_id d \<notin> set (map d_id c)) ds)"

definition link_all :: "ustr list \<Rightarrow> episode \<Rightarrow> episode" where
  "link_all ids ep = ep\<lparr>ep_entity_ids := ep_entity_ids ep @ ids\<rparr>"

definition sample_episode :: "string \<Rightarrow> timestamp \<Rightarrow> episode" where
  "sample_episode hex t =
     \<lparr>ep_id = asc ''ep_'' @ asc hex, ep_title = asc ''storage layer'', ep_tags = [asc ''db''],
      ep_status = asc ''active'', ep_created_at = t, ep_entity_ids = []\<rparr>"

text \<open>A manager with an active episode, for the examples.\<close>

definition routing_state :: manager where
  "routing_state = empty_manager\<lparr>current_episode := Some (sample_episode ''11111111'' 1800000000000000)\<rparr>"

text \<open>
  The manager after \<open>n\<close> ids and \<open>n\<close> clock readings have been drawn, and a pass of
  detection that has changed nothing else: it has drawn one id and one clock reading for
  each candidate it has added.
\<close>

definition after_draws :: "nat \<Rightarrow> manager \<Rightarrow> manager" where
  "after_draws n s = s\<lparr>uuid_calls := uuid_calls s + n, clock_calls := clock_calls s + n\<rparr>"

definition draws_only :: "dstate \<Rightarrow> dstate \<Rightarrow> bool" where
  "draws_only st st' =
     (length (fst st) \<le> length (fst st')
      \<and> snd (snd st') = after_draws (length (fst st') - length (fst st)) (snd (snd st)))"

text \<open>
  The candidates \<open>_detect_and_process_entities\<close> detects in a text, and the records that
  the confirmed ones among \<open>cands\<close> become: detection has drawn an id and a clock reading
  for each detected candidate before the first record is added.
\<close>

definition detected :: "env \<Rightarrow> manager \<Rightarrow> ustr \<Rightarrow> candidate list" where
  "detected E s content = fst (detect_candidates E s content)"

definition routed :: "env \<Rightarrow> manager \<Rightarrow> ustr \<Rightarrow> candidate list \<Rightarrow> (candidate \<times> doc) list" where
  "routed E s content cands =
     promotions E (episode_id_or_empty s) (uuid_calls s + length (detected E s content))
       (clock_calls s + length (detected E s content)) cands"

definition encodable :: "env \<Rightarrow> candidate \<Rightarrow> bool" where
  "encodable E c = (encode_reply E (c_extracted_content c) \<noteq> None)"

text \<open>
  The first Decision pattern, a text of two lines, and what \<open>re.findall\<close> returns for
  every pattern of the table on it: only that pattern matches, once, with the group
  \<open>sqlit\<close>. The second line holds the Preference keyword \<open>prefer\<close> and matches no pattern.
  \<open>decision_candidate\<close> and \<open>preference_candidate\<close> are the two candidates detected in it.
\<close>

definition DECIDE_PATTERN :: ustr where
  "DECIDE_PATTERN = asc ''(?:'' @ [25105] @ asc ''|'' @ [25105, 20204] @ asc '')?(?:'' @ [20915, 23450] @ asc ''|'' @ [30830, 23450] @ asc ''|'' @ [36873, 25321] @ asc ''|'' @ [37319, 29992] @ asc ''|'' @ [20351, 29992] @ asc '')(?:'' @ [20102] @ asc '')?(.{5,50}?)(?:'' @ [26041, 26696] @ asc ''|'' @ [26041, 24335] @ asc ''|'' @ [26041, 27861] @ asc ''|'' @ [26469] @ asc ''|'' @ [20316, 20026] @ asc ''|'' @ [36827, 34892] @ asc '')?''"

definition routing_text :: ustr where
  "routing_text = [20351, 29992] @ asc ''sqlite'' @ [10] @ asc ''prefer x''"

definition routing_env :: env where
  "routing_env = (quiet_env 1800000000000000)
     \<lparr>re_findall := (\<lambda>pattern text.
         if pattern = DECIDE_PATTERN \<and> text = routing_text then [MOne (asc ''sqlit'')] else [])\<rparr>"

definition decision_candidate :: candidate where
  "decision_candidate =
     \<lparr>c_id = asc ''cand_00000000'', c_type = asc ''Decision'', c_extracted_content = asc ''sqlit'',
      c_source_snippet = routing_text, c_confidence = 9 / 10, c_status = asc ''pending'',
      c_detected_at = 1800000000000000, c_detection_method = asc ''pattern''\<rparr>"

definition preference_candidate :: candidate where
  "preference_candidate =
     \<lparr>c_id = asc ''cand_00000001'', c_type = asc ''Preference'', c_extracted_content = asc ''prefer x'',
      c_source_snippet = routing_text, c_confidence = 6 / 10, c_status = asc ''pending'',
      c_detected_at = 1800000000000000, c_detection_method = asc ''keyword''\<rparr>"

text \<open>
  The episode \<open>start_episode\<close> opens with the id drawn at \<open>u\<close> and the clock reading at
  \<open>t\<close>, and the record \<open>close_episode\<close> archives for an episode, given the summary and
  the vector the encoder returned for it.
\<close>

definition opened_episode :: "env \<Rightarrow> nat \<Rightarrow> nat \<Rightarrow> ustr \<Rightarrow> ustr list option \<Rightarrow> episode" where
  "opened_episode E u t title tags =
     \<lparr>ep_id = asc ''ep_'' @ uuid4_hex8 E u, ep_title = title,
      ep_tags = (case tags of None \<Rightarrow> [] | Some ts \<Rightarrow> ts),
      ep_status = asc ''active'', ep_created_at = datetime_now E t, ep_entity_ids = []\<rparr>"

definition archived_doc :: "env \<Rightarrow> manager \<Rightarrow> episode \<Rightarrow> ustr \<Rightarrow> vec \<Rightarrow> doc" where
  "archived_doc E s ep summary v =
     \<lparr>d_id = ep_id ep, d_embedding = v, d_content = summary,
      d_metadata = episode_metadata ep (length (current_messages s)) (datetime_now E (clock_calls s))\<rparr>"

definition is_archived_episode :: "doc \<Rightarrow> bool" where
  "is_archived_episode d =
     (map_of (d_metadata d) (asc ''type'') = Some (MStr (asc ''Episode''))
      \<and> map_of (d_metadata d) (asc ''status'') = Some (MStr (asc ''completed'')))"

text \<open>
  The backing index answers a query, or fails with the index-integrity error that
  \<open>_vector_search\<close> recovers from; any other exception of the index is raised again.
\<close>

definition index_answers :: "env \<Rightarrow> collection \<Rightarrow> vec \<Rightarrow> int \<Rightarrow> where_clause option \<Rightarrow> bool" where
  "index_answers E c v top_k w =
     (case collection_query E c v top_k w of QOk _ \<Rightarrow> True | QRaise msg \<Rightarrow> is_index_error E msg)"

definition has_type_and_status :: "ustr \<Rightarrow> ustr \<Rightarrow> item \<Rightarrow> bool" where
  "has_type_and_status entity_type status i =
     (map_of (i_metadata i) (asc ''type'') = Some (MStr entity_type)
      \<and> map_of (i_metadata i) (asc ''status'') = Some (MStr status))"

definition type_store :: "manager \<Rightarrow> ustr \<Rightarrow> collection" where
  "type_store s entity_type = (if is_user_level entity_type then user_store s else project_store s)"

definition type_status :: "ustr \<Rightarrow> ustr" where
  "type_status entity_type = (if entity_type = asc ''Episode'' then asc ''completed'' else asc ''active'')"

definition no_query :: "ustr option \<Rightarrow> bool" where
  "no_query query = (query = None \<or> query = Some [])"

text \<open>
  Keyword ranking as the specification words it, for comparison with \<open>_keyword_search\<close>:
  the tokens are the whitespace-separated pieces of the query of at least 2 characters;
  the score of a candidate is the number of tokens that occur in its content, ignoring
  case; candidates with a positive score are kept (all of them when there is no token),
  sorted by score, highest first and otherwise in the order of the scan, and cut to
  \<open>top_k\<close>. The candidates are the first \<open>10 * top_k\<close> records the filter admits.
\<close>

definition spec_tokens :: "ustr \<Rightarrow> ustr list" where
  "spec_tokens query = filter (\<lambda>t. length t \<ge> 2) (py_split [] query)"

definition spec_score :: "env \<Rightarrow> ustr \<Rightarrow> ustr \<Rightarrow> nat" where
  "spec_score E query content =
     length (filter (\<lambda>t. py_in (str_lower E t) (str_lower E content)) (spec_tokens query))"

definition spec_keyword_rank :: "env \<Rightarrow> collection \<Rightarrow> ustr \<Rightarrow> int \<Rightarrow> where_clause option \<Rightarrow> item list" where
  "spec_keyword_rank E c query top_k w =
     take (nat top_k)
       (sort_key (\<lambda>i. - int (spec_score E query (i_content i)))
          (filter (\<lambda>i. spec_score E query (i_content i) > 0 \<or> spec_tokens query = [])
             (map to_item (take (nat (top_k * 10)) (matching c w)))))"

definition plain_item :: "item \<Rightarrow> bool" where
  "plain_item i = (i_distance i = None)"

text \<open>An index that fails with the integrity error, and stored notes, for the examples.\<close>

definition broken_index :: "env \<Rightarrow> env" where
  "broken_index E = E\<lparr>collection_query := (\<lambda>c v k w. QRaise (asc ''Error finding id 42''))\<rparr>"

definition note_doc :: "string \<Rightarrow> string \<Rightarrow> doc" where
  "note_doc hex content =
     \<lparr>d_id = asc ''ent_'' @ asc hex, d_embedding = [1, 0], d_content = asc content,
      d_metadata = [(asc ''type'', MStr (asc ''Decision'')), (asc ''status'', MStr (asc ''active''))]\<rparr>"

text \<open>
  What one pass of detection extracts for a type, in the words of the specification.
  \<open>accepted seen xs\<close> are the extracted strings that become candidates: longer than 3
  characters and not extracted before in the pass (\<open>seen\<close> holds the earlier ones).
  \<open>candidate_view\<close> is a candidate without its id, snippet, status and time.
\<close>

fun accepted :: "ustr set \<Rightarrow> ustr list \<Rightarrow> ustr list" where
  "accepted seen [] = []"
| "accepted seen (x # xs) =
     (if length x > 3 \<and> x \<notin> seen then x # accepted (insert x seen) xs else accepted seen xs)"

definition candidate_view :: "candidate \<Rightarrow> ustr \<times> ustr \<times> rat \<times> ustr" where
  "candidate_view c = (c_type c, c_extracted_content c, c_confidence c, c_detection_method c)"

definition all_matches :: "env \<Rightarrow> rule \<Rightarrow> ustr \<Rightarrow> ustr list" where
  "all_matches E rules content =
     map extracted_of (concat (map (\<lambda>pattern. re_findall E pattern content) (rl_patterns rules)))"

definition keyword_sentence :: "rule \<Rightarrow> ustr \<Rightarrow> ustr option" where
  "keyword_sentence rules content =
     find (\<lambda>sentence. has_keyword rules sentence \<and> length sentence > 5)
       (split_on sentence_delimiter [] content)"

definition type_stage :: "env \<Rightarrow> ustr \<Rightarrow> rule \<Rightarrow> ustr \<Rightarrow> dstate \<Rightarrow> dstate" where
  "type_stage E entity_type rules content st =
     keyword_stage E entity_type rules content
       (pattern_loop E entity_type rules content (rl_patterns rules) st)"

text \<open>The second Preference pattern, and what \<open>re.findall\<close> returns for every pattern of the
  table on the text \<open>prefer    x\<close> (only that pattern matches, with the group \<open>    x\<close>) and on the
  two lines \<open>prefer tabs!\<close>, \<open>prefer tabs!\<close> (that pattern matches once on each line).\<close>

definition PREFER_PATTERN :: ustr where
  "PREFER_PATTERN = asc ''(?:prefer|'' @ [20559, 22909] @ asc '')(?:'' @ [20351, 29992] @ asc ''|'' @ [29992] @ asc '')?(.{5,50})''"

definition prefer_env :: env where
  "prefer_env = (quiet_env 1800000000000000)
     \<lparr>re_findall := (\<lambda>pattern text.
         if pattern = PREFER_PATTERN \<and> text = asc ''prefer    x'' then [MOne (asc ''    x'')]
         else if pattern = PREFER_PATTERN \<and> text = asc ''prefer tabs!'' @ [10] @ asc ''prefer tabs!''
         then [MOne (asc '' tabs!''), MOne (asc '' tabs!'')]
         else [])\<rparr>"

definition PREFERENCE_RULE :: rule where
  "PREFERENCE_RULE =
     \<lparr>rl_patterns =
        [asc ''(?:'' @ [25105] @ asc ''|'' @ [29992, 25143] @ asc '')?(?:'' @ [21916, 27426] @ asc ''|'' @ [20559, 22909] @ asc ''|'' @ [20542, 21521, 20110] @ asc ''|'' @ [26356, 24895, 24847] @ asc '')(.{5,50})'',
         PREFER_PATTERN],
      rl_keywords = [[21916, 27426], [20559, 22909], [20542, 21521, 20110], asc ''prefer'',
                  [26356, 21916, 27426]],
      rl_min_confidence = 6 / 10\<rparr>"

section \<open>Basic facts\<close>

lemma asc_eq_iff [simp]: "asc a = asc b \<longleftrightarrow> a = b"
  unfolding asc_def by (rule inj_map_eq_map) (simp add: inj_on_def)

section \<open>Cleaning the message log\<close>

lemma scan_lines_filter:
  "\<not> list_ex is_malformed ls \<Longrightarrow>
   scan_lines (t - days * day_us) ls (kept, r) =
     Inr (kept @ filter (\<lambda>l. \<not> line_removed t days l) ls,
          r + length (filter (line_removed t days) ls))"
proof (induction ls arbitrary: kept r)
  case Nil
  then show ?case by simp
next
  case (Cons l ls)
  then show ?case
    by (cases l) (auto simp: line_removed_def is_malformed_def)
qed

text \<open>
  C8, as amended. \<open>cleanup_old_messages(days)\<close> on a log without malformed lines removes
  exactly the messages whose age is at least \<open>days\<close> days (timestamp not after the
  cutoff \<open>now - days\<close>) and keeps every other line in order; it reports the two counts and
  rewrites the file with the kept lines.
\<close>

theorem cleanup_old_messages_cutoff:
  assumes "cache_file s = Some ls" and "\<not> list_ex is_malformed ls"
  shows "cleanup_old_messages E s days =
     (Inr \<lparr>r_status = asc ''cleaned'', r_days_kept = Some days,
           r_removed = length (filter (line_removed (datetime_now E (clock_calls s)) days) ls),
           r_kept = length (filter (\<lambda>l. \<not> line_removed (datetime_now E (clock_calls s)) days l) ls)\<rparr>,
      s\<lparr>clock_calls := clock_calls s + 1,
        cache_file := Some (filter (\<lambda>l. \<not> line_removed (datetime_now E (clock_calls s)) days l) ls)\<rparr>)"
  using assms by (simp add: cleanup_old_messages_def read_clock_def scan_lines_filter)

text \<open>
  The example of the specification at one moment: a log holding messages aged 10, 8, 3
  and 0 days keeps the two newest and removes the two oldest.
\<close>

theorem cleanup_old_messages_cutoff_witness:
  "cache_file (empty_manager\<lparr>cache_file := Some (map (\<lambda>a. LMsg (aged_message 1800000000000000 a)) [10, 8, 3, 0])\<rparr>)
     = Some (map (\<lambda>a. LMsg (aged_message 1800000000000000 a)) [10, 8, 3, 0])
   \<and> \<not> list_ex is_malformed (map (\<lambda>a. LMsg (aged_message 1800000000000000 a)) [10, 8, 3, 0])
   \<and> cleanup_old_messages (quiet_env 1800000000000000)
        (empty_manager\<lparr>cache_file := Some (map (\<lambda>a. LMsg (aged_message 1800000000000000 a)) [10, 8, 3, 0])\<rparr>) 7
      = (Inr \<lparr>r_status = asc ''cleaned'', r_days_kept = Some 7, r_removed = 2, r_kept = 2\<rparr>,
         empty_manager\<lparr>clock_calls := 1,
            cache_file := Some [LMsg (aged_message 1800000000000000 3), LMsg (aged_message 1800000000000000 0)]\<rparr>)"
  using cleanup_old_messages_cutoff [of
      "empty_manager\<lparr>cache_file := Some (map (\<lambda>a. LMsg (aged_message 1800000000000000 a)) [10, 8, 3, 0])\<rparr>"
      "map (\<lambda>a. LMsg (aged_message 1800000000000000 a)) [10, 8, 3, 0]" "quiet_env 1800000000000000" 7]
  by (simp add: is_malformed_def line_removed_def aged_message_def quiet_env_def empty_manager_def day_us_def)

text \<open>The same example at every moment and in every state of the manager.\<close>

lemma cleanup_example_ages:
  "cleanup_old_messages E
     (s\<lparr>cache_file := Some (map (\<lambda>a. LMsg (aged_message (datetime_now E (clock_calls s)) a)) [10, 8, 3, 0])\<rparr>) 7
   = (Inr \<lparr>r_status = asc ''cleaned'', r_days_kept = Some 7, r_removed = 2, r_kept = 2\<rparr>,
      s\<lparr>clock_calls := clock_calls s + 1,
        cache_file := Some (map (\<lambda>a. LMsg (aged_message (datetime_now E (clock_calls s)) a)) [3, 0])\<rparr>)"
  by (simp add: cleanup_old_messages_def read_clock_def aged_message_def day_us_def)

text \<open>
  C8, as stated, fails on the boundary: a message whose age is exactly 7 days does not
  exceed the cutoff, and \<open>cleanup_old_messages(days=7)\<close> removes it (the test is
  \<open>msg_time > cutoff\<close> for keeping).
\<close>

theorem cleanup_boundary_counterexample:
  "age_exceeds 1800000000000000 7 (LMsg (aged_message 1800000000000000 7)) = False
   \<and> cleanup_old_messages (quiet_env 1800000000000000)
        (empty_manager\<lparr>cache_file := Some [LMsg (aged_message 1800000000000000 7)]\<rparr>) 7
      = (Inr \<lparr>r_status = asc ''cleaned'', r_days_kept = Some 7, r_removed = 1, r_kept = 0\<rparr>,
         empty_manager\<lparr>clock_calls := 1, cache_file := Some []\<rparr>)"
  by (simp add: cleanup_old_messages_def read_clock_def age_exceeds_def aged_message_def
      quiet_env_def empty_manager_def day_us_def)

section \<open>Caching a message\<close>

lemma same_log_refl [simp]: "same_log s s"
  by (simp add: same_log_def)























section \<open>Adding, confirming and rejecting entities\<close>

lemma is_user_level_iff: "entity_type \<in> set USER_LEVEL_TYPES \<longleftrightarrow> is_user_level entity_type"
  by (auto simp: USER_LEVEL_TYPES_def is_user_level_def)

lemma add_entity_ok:
  assumes "encode_reply E content = Some v"
  shows "add_entity E s entity_type content reason related_ids =
     (Inr \<lparr>e_id = d_id (entity_doc E s entity_type content reason related_ids v), e_type = entity_type,
           e_content = content,
           e_metadata = d_metadata (entity_doc E s entity_type content reason related_ids v)\<rparr>,
      (let d = entity_doc E s entity_type content reason related_ids v;
           s2 = s\<lparr>uuid_calls := uuid_calls s + 1, clock_calls := clock_calls s + 1\<rparr>;
           s3 = (if is_user_level entity_type then s2\<lparr>user_store := collection_add (user_store s) d\<rparr>
                 else s2\<lparr>project_store := collection_add (project_store s) d\<rparr>)
       in case current_episode s of
            None \<Rightarrow> s3
          | Some ep \<Rightarrow> save_active_episode (s3\<lparr>current_episode := Some (link_entity (d_id d) ep)\<rparr>)))"
  using assms
  by (cases "current_episode s")
     (simp_all add: add_entity_def draw_uuid_def read_clock_def store_add_def encode_text_def Let_def
      is_user_level_iff entity_doc_def link_entity_def episode_id_or_empty_def)

lemma add_entity_fails:
  assumes "encode_reply E content = None"
  shows "add_entity E s entity_type content reason related_ids =
     (Inl RuntimeError, s\<lparr>uuid_calls := uuid_calls s + 1, clock_calls := clock_calls s + 1\<rparr>)"
  using assms
  by (simp add: add_entity_def draw_uuid_def read_clock_def store_add_def encode_text_def Let_def)

lemma filter_unknown: "unknown_candidate s cid \<Longrightarrow> filter (\<lambda>p. c_id p \<noteq> cid) (pending_entities s) = pending_entities s"
  by (auto simp: unknown_candidate_def filter_id_conv)

lemma entity_doc_active:
  "map_of (d_metadata (entity_doc E s entity_type content reason related_ids v)) (asc ''status'')
     = Some (MStr (asc ''active''))"
  by (simp add: entity_doc_def entity_metadata_def asc_def)

text \<open>
  C9, as amended. For a candidate id that is not in the pending queue:
  \<open>reject_candidate\<close> is a no-op (it rewrites the pending file with the unchanged queue
  and leaves the queue and both stores as they were); \<open>confirm_entity\<close> leaves the queue
  unchanged too, but it is \<open>add_entity\<close> on the type and content it was given. When the
  encoder answers, a record with the status \<open>active\<close> and the next id drawn is added to the
  store of the type's tier: it is appended, unless that store already holds the id, in
  which case the store ignores the add. When the encoder fails, \<open>RuntimeError\<close> is raised
  with both stores unchanged.
\<close>

theorem unknown_candidate_reject_confirm:
  assumes "unknown_candidate s candidate_id"
  shows "reject_candidate s candidate_id = s\<lparr>pending_file := Some (Json (pending_entities s))\<rparr>
    \<and> pending_entities (reject_candidate s candidate_id) = pending_entities s
    \<and> user_store (reject_candidate s candidate_id) = user_store s
    \<and> project_store (reject_candidate s candidate_id) = project_store s
    \<and> confirm_entity E s candidate_id entity_type content
        = add_entity E (s\<lparr>pending_file := Some (Json (pending_entities s))\<rparr>) entity_type content None None
    \<and> pending_entities (snd (confirm_entity E s candidate_id entity_type content)) = pending_entities s
    \<and> (encode_reply E content = Some v \<longrightarrow>
          fst (confirm_entity E s candidate_id entity_type content)
            = Inr \<lparr>e_id = asc ''ent_'' @ uuid4_hex8 E (uuid_calls s), e_type = entity_type, e_content = content,
                   e_metadata = d_metadata (entity_doc E s entity_type content None None v)\<rparr>
          \<and> user_store (snd (confirm_entity E s candidate_id entity_type content))
            = (if is_user_level entity_type
               then collection_add (user_store s) (entity_doc E s entity_type content None None v)
               else user_store s)
          \<and> project_store (snd (confirm_entity E s candidate_id entity_type content))
            = (if is_user_level entity_type
               then project_store s
               else collection_add (project_store s) (entity_doc E s entity_type content None None v))
          \<and> type_store (snd (confirm_entity E s candidate_id entity_type content)) entity_type
            = (if asc ''ent_'' @ uuid4_hex8 E (uuid_calls s) \<in> set (map d_id (type_store s entity_type))
               then type_store s entity_type
               else type_store s entity_type @ [entity_doc E s entity_type content None None v])
          \<and> d_id (entity_doc E s entity_type content None None v) = asc ''ent_'' @ uuid4_hex8 E (uuid_calls s)
          \<and> map_of (d_metadata (entity_doc E s entity_type content None None v)) (asc ''status'')
            = Some (MStr (asc ''active'')))
    \<and> (encode_reply E content = None \<longrightarrow>
          fst (confirm_entity E s candidate_id entity_type content) = Inl RuntimeError
          \<and> user_store (snd (confirm_entity E s candidate_id entity_type content)) = user_store s
          \<and> project_store (snd (confirm_entity E s candidate_id entity_type content)) = project_store s)"
proof -
  let ?s2 = "s\<lparr>pending_file := Some (Json (pending_entities s))\<rparr>"
  let ?conf = "confirm_entity E s candidate_id entity_type content"
  have r: "reject_candidate s candidate_id = ?s2"
    using filter_unknown [OF assms] by (simp add: reject_candidate_def save_pending_entities_def)
  have c: "?conf = add_entity E ?s2 entity_type content None None"
    using filter_unknown [OF assms] by (simp add: confirm_entity_def save_pending_entities_def Let_def)
  have d: "entity_doc E ?s2 entity_type content None None v = entity_doc E s entity_type content None None v" for v
    by (simp add: entity_doc_def episode_id_or_empty_def)
  have ok: "fst ?conf
            = Inr \<lparr>e_id = asc ''ent_'' @ uuid4_hex8 E (uuid_calls s), e_type = entity_type, e_content = content,
                   e_metadata = d_metadata (entity_doc E s entity_type content None None w)\<rparr>
          \<and> user_store (snd ?conf)
            = (if is_user_level entity_type
               then collection_add (user_store s) (entity_doc E s entity_type content None None w)
               else user_store s)
          \<and> project_store (snd ?conf)
            = (if is_user_level entity_type
               then project_store s
               else collection_add (project_store s) (entity_doc E s entity_type content None None w))
          \<and> pending_entities (snd ?conf) = pending_entities s"
    if "encode_reply E content = Some w" for w
    using that
    by (cases "current_episode s")
       (simp_all add: c add_entity_ok [of E content w ?s2] d Let_def save_active_episode_def, simp_all add: entity_doc_def)
  have ts: "type_store (snd ?conf) entity_type
            = (if asc ''ent_'' @ uuid4_hex8 E (uuid_calls s) \<in> set (map d_id (type_store s entity_type))
               then type_store s entity_type
               else type_store s entity_type @ [entity_doc E s entity_type content None None w])"
    if "encode_reply E content = Some w" for w
  proof -
    have i: "d_id (entity_doc E s entity_type content None None w) = asc ''ent_'' @ uuid4_hex8 E (uuid_calls s)"
      by (simp add: entity_doc_def)
    have "type_store (snd ?conf) entity_type
        = collection_add (type_store s entity_type) (entity_doc E s entity_type content None None w)"
      using ok [OF that] by (simp add: type_store_def)
    then show ?thesis unfolding collection_add_def i by simp
  qed
  have bad: "encode_reply E content = None \<Longrightarrow>
          fst ?conf = Inl RuntimeError
          \<and> user_store (snd ?conf) = user_store s
          \<and> project_store (snd ?conf) = project_store s
          \<and> pending_entities (snd ?conf) = pending_entities s"
    by (simp add: c add_entity_fails)
  have p: "pending_entities (snd ?conf) = pending_entities s"
    using ok bad by (cases "encode_reply E content") auto
  have i: "d_id (entity_doc E s entity_type content None None v) = asc ''ent_'' @ uuid4_hex8 E (uuid_calls s)"
    by (simp add: entity_doc_def)
  show ?thesis
    using r c ok [of v] ts [of v] bad p i entity_doc_active [of E s entity_type content None None v]
    by auto
qed

text \<open>
  With one pending candidate and an id that is not its id: rejecting changes nothing but
  the pending file; confirming a Decision stores a new project record and keeps the
  queue; when the project store already holds the id drawn, the store stays as it was;
  with the worker down, confirming raises.
\<close>

theorem unknown_candidate_reject_confirm_witness:
  "unknown_candidate
      (empty_manager\<lparr>pending_entities := [sample_candidate ''aaaaaaaa'' ''Preference'' (asc ''tabs over spaces'') (6 / 10)]\<rparr>)
      (asc ''cand_zzzzzzzz'')
   \<and> reject_candidate
      (empty_manager\<lparr>pending_entities := [sample_candidate ''aaaaaaaa'' ''Preference'' (asc ''tabs over spaces'') (6 / 10)]\<rparr>)
      (asc ''cand_zzzzzzzz'')
     = empty_manager\<lparr>pending_entities := [sample_candidate ''aaaaaaaa'' ''Preference'' (asc ''tabs over spaces'') (6 / 10)],
          pending_file := Some (Json [sample_candidate ''aaaaaaaa'' ''Preference'' (asc ''tabs over spaces'') (6 / 10)])\<rparr>
   \<and> encode_reply (quiet_env 1800000000000000) (asc ''use sqlite'') = Some [1, 0]
   \<and> project_store (snd (confirm_entity (quiet_env 1800000000000000)
        (empty_manager\<lparr>pending_entities := [sample_candidate ''aaaaaaaa'' ''Preference'' (asc ''tabs over spaces'') (6 / 10)]\<rparr>)
        (asc ''cand_zzzzzzzz'') (asc ''Decision'') (asc ''use sqlite'')))
     = [\<lparr>d_id = asc ''ent_00000000'', d_embedding = [1, 0], d_content = asc ''use sqlite'',
          d_metadata = entity_metadata (asc ''Decision'') None None [] 1800000000000000\<rparr>]
   \<and> pending_entities (snd (confirm_entity (quiet_env 1800000000000000)
        (empty_manager\<lparr>pending_entities := [sample_candidate ''aaaaaaaa'' ''Preference'' (asc ''tabs over spaces'') (6 / 10)]\<rparr>)
        (asc ''cand_zzzzzzzz'') (asc ''Decision'') (asc ''use sqlite'')))
     = [sample_candidate ''aaaaaaaa'' ''Preference'' (asc ''tabs over spaces'') (6 / 10)]
   \<and> unknown_candidate (empty_manager\<lparr>project_store := [note_doc ''00000000'' ''use postgres'']\<rparr>) (asc ''cand_zzzzzzzz'')
   \<and> project_store (snd (confirm_entity (quiet_env 1800000000000000)
        (empty_manager\<lparr>project_store := [note_doc ''00000000'' ''use postgres'']\<rparr>)
        (asc ''cand_zzzzzzzz'') (asc ''Decision'') (asc ''use sqlite'')))
     = [note_doc ''00000000'' ''use postgres'']
   \<and> encode_reply (worker_down (quiet_env 1800000000000000)) (asc ''use sqlite'') = None
   \<and> fst (confirm_entity (worker_down (quiet_env 1800000000000000))
        (empty_manager\<lparr>pending_entities := [sample_candidate ''aaaaaaaa'' ''Preference'' (asc ''tabs over spaces'') (6 / 10)]\<rparr>)
        (asc ''cand_zzzzzzzz'') (asc ''Decision'') (asc ''use sqlite'')) = Inl RuntimeError"
proof -
  let ?s = "empty_manager\<lparr>pending_entities := [sample_candidate ''aaaaaaaa'' ''Preference'' (asc ''tabs over spaces'') (6 / 10)]\<rparr>"
  let ?s' = "empty_manager\<lparr>project_store := [note_doc ''00000000'' ''use postgres'']\<rparr>"
  let ?E = "quiet_env 1800000000000000"
  have u: "unknown_candidate ?s (asc ''cand_zzzzzzzz'')"
    by (simp add: unknown_candidate_def sample_candidate_def empty_manager_def asc_def)
  have u': "unknown_candidate ?s' (asc ''cand_zzzzzzzz'')"
    by (simp add: unknown_candidate_def empty_manager_def)
  have e1: "encode_reply ?E (asc ''use sqlite'') = Some [1, 0]"
    by (simp add: quiet_env_def)
  have e2: "encode_reply (worker_down ?E) (asc ''use sqlite'') = None"
    by (simp add: worker_down_def)
  note t1 = unknown_candidate_reject_confirm [OF u, of ?E "asc ''Decision''" "asc ''use sqlite''" "[1, 0]"]
  note t2 = unknown_candidate_reject_confirm [OF u, of "worker_down ?E" "asc ''Decision''" "asc ''use sqlite''" "[]"]
  note t3 = unknown_candidate_reject_confirm [OF u', of ?E "asc ''Decision''" "asc ''use sqlite''" "[1, 0]"]
  have a: "reject_candidate ?s (asc ''cand_zzzzzzzz'')
      = ?s\<lparr>pending_file := Some (Json [sample_candidate ''aaaaaaaa'' ''Preference'' (asc ''tabs over spaces'') (6 / 10)])\<rparr>"
  proof -
    have "reject_candidate ?s (asc ''cand_zzzzzzzz'') = ?s\<lparr>pending_file := Some (Json (pending_entities ?s))\<rparr>"
      using t1 by blast
    then show ?thesis by simp
  qed
  have b: "project_store (snd (confirm_entity ?E ?s
        (asc ''cand_zzzzzzzz'') (asc ''Decision'') (asc ''use sqlite'')))
     = [\<lparr>d_id = asc ''ent_00000000'', d_embedding = [1, 0], d_content = asc ''use sqlite'',
          d_metadata = entity_metadata (asc ''Decision'') None None [] 1800000000000000\<rparr>]"
  proof -
    have "project_store (snd (confirm_entity ?E ?s
        (asc ''cand_zzzzzzzz'') (asc ''Decision'') (asc ''use sqlite'')))
      = (if is_user_level (asc ''Decision'') then project_store ?s
         else collection_add (project_store ?s)
                (entity_doc ?E ?s (asc ''Decision'') (asc ''use sqlite'') None None [1, 0]))"
      using t1 e1 by blast
    then show ?thesis
      by (simp add: is_user_level_def entity_doc_def empty_manager_def quiet_env_def collection_add_def
          episode_id_or_empty_def str_of_nat.simps asc_def)
  qed
  have c: "pending_entities (snd (confirm_entity ?E ?s
        (asc ''cand_zzzzzzzz'') (asc ''Decision'') (asc ''use sqlite'')))
     = [sample_candidate ''aaaaaaaa'' ''Preference'' (asc ''tabs over spaces'') (6 / 10)]"
  proof -
    have "pending_entities (snd (confirm_entity ?E ?s
        (asc ''cand_zzzzzzzz'') (asc ''Decision'') (asc ''use sqlite''))) = pending_entities ?s"
      using t1 by blast
    then show ?thesis by simp
  qed
  have b': "project_store (snd (confirm_entity ?E ?s'
        (asc ''cand_zzzzzzzz'') (asc ''Decision'') (asc ''use sqlite'')))
     = [note_doc ''00000000'' ''use postgres'']"
  proof -
    have "project_store (snd (confirm_entity ?E ?s'
        (asc ''cand_zzzzzzzz'') (asc ''Decision'') (asc ''use sqlite'')))
      = (if is_user_level (asc ''Decision'') then project_store ?s'
         else collection_add (project_store ?s')
                (entity_doc ?E ?s' (asc ''Decision'') (asc ''use sqlite'') None None [1, 0]))"
      using t3 e1 by blast
    then show ?thesis
      by (simp add: is_user_level_def entity_doc_def empty_manager_def quiet_env_def collection_add_def
          note_doc_def episode_id_or_empty_def str_of_nat.simps asc_def)
  qed
  have d: "fst (confirm_entity (worker_down ?E) ?s
        (asc ''cand_zzzzzzzz'') (asc ''Decision'') (asc ''use sqlite'')) = Inl RuntimeError"
    using t2 e2 by blast
  show ?thesis using u a e1 b c u' b' e2 d by simp
qed

text \<open>
  C9, as stated, fails for \<open>confirm_entity\<close>: with an empty pending queue every id is
  unknown, and confirming one still adds a record to the project store.
\<close>

theorem confirm_unknown_counterexample:
  "unknown_candidate empty_manager (asc ''cand_zzzzzzzz'')
   \<and> fst (confirm_entity (quiet_env 1800000000000000) empty_manager
        (asc ''cand_zzzzzzzz'') (asc ''Decision'') (asc ''use sqlite''))
     = Inr \<lparr>e_id = asc ''ent_00000000'', e_type = asc ''Decision'', e_content = asc ''use sqlite'',
            e_metadata = entity_metadata (asc ''Decision'') None None [] 1800000000000000\<rparr>
   \<and> project_store empty_manager = []
   \<and> project_store (snd (confirm_entity (quiet_env 1800000000000000) empty_manager
        (asc ''cand_zzzzzzzz'') (asc ''Decision'') (asc ''use sqlite'')))
     = [\<lparr>d_id = asc ''ent_00000000'', d_embedding = [1, 0], d_content = asc ''use sqlite'',
          d_metadata = entity_metadata (asc ''Decision'') None None [] 1800000000000000\<rparr>]"
  by (simp add: unknown_candidate_def confirm_entity_def save_pending_entities_def add_entity_def
      draw_uuid_def read_clock_def store_add_def collection_add_def encode_text_def Let_def
      USER_LEVEL_TYPES_def
      empty_manager_def quiet_env_def episode_id_or_empty_def str_of_nat.simps asc_def)

section \<open>Routing detected candidates\<close>

lemma add_entity_effect:
  assumes "encode_reply E content \<noteq> None"
  shows "fst (add_entity E s ty content reason rel)
        = Inr \<lparr>e_id = asc ''ent_'' @ uuid4_hex8 E (uuid_calls s), e_type = ty, e_content = content,
               e_metadata = d_metadata (entity_doc E s ty content reason rel (the (encode_reply E content)))\<rparr>
    \<and> user_store (snd (add_entity E s ty content reason rel))
        = (if is_user_level ty
           then collection_add (user_store s)
                  (entity_doc E s ty content reason rel (the (encode_reply E content)))
           else user_store s)
    \<and> project_store (snd (add_entity E s ty content reason rel))
        = (if is_user_level ty then project_store s
           else collection_add (project_store s)
                  (entity_doc E s ty content reason rel (the (encode_reply E content))))
    \<and> pending_entities (snd (add_entity E s ty content reason rel)) = pending_entities s
    \<and> pending_file (snd (add_entity E s ty content reason rel)) = pending_file s
    \<and> current_episode (snd (add_entity E s ty content reason rel))
        = map_option (link_entity (asc ''ent_'' @ uuid4_hex8 E (uuid_calls s))) (current_episode s)
    \<and> uuid_calls (snd (add_entity E s ty content reason rel)) = uuid_calls s + 1
    \<and> clock_calls (snd (add_entity E s ty content reason rel)) = clock_calls s + 1
    \<and> episode_id_or_empty (snd (add_entity E s ty content reason rel)) = episode_id_or_empty s"
proof -
  from assms obtain v where v: "encode_reply E content = Some v" by auto
  show ?thesis
    by (cases "current_episode s")
       (simp_all add: add_entity_ok [OF v] v Let_def save_active_episode_def entity_doc_def
          link_entity_def episode_id_or_empty_def)
qed

lemma promotions_fst: "map fst (promotions E eid u t cands) = filter auto_confirmed cands"
  by (induction cands arbitrary: u t) auto

lemma promotions_promoted: "list_all promoted_of (promotions E eid u t cands)"
  by (induction cands arbitrary: u t) (auto simp: promoted_of_def entity_metadata_def asc_def)

lemma add_all_Cons: "add_all c (d # ds) = add_all (collection_add c d) ds"
  by (simp add: add_all_def)

lemma add_all_new: "ids_new c ds \<Longrightarrow> add_all c ds = c @ ds"
proof (induction ds arbitrary: c)
  case Nil
  show ?case by (simp add: add_all_def)
next
  case (Cons d ds)
  have a: "collection_add c d = c @ [d]"
    using Cons.prems by (simp add: ids_new_def collection_add_def)
  have n: "ids_new (c @ [d]) ds"
  proof -
    have 1: "distinct (map d_id ds)" and 2: "d_id d \<notin> set (map d_id ds)"
      and 3: "list_all (\<lambda>x. d_id x \<notin> set (map d_id c)) ds"
      using Cons.prems by (simp_all add: ids_new_def)
    have "d_id x \<noteq> d_id d" if "x \<in> set ds" for x
    proof
      assume "d_id x = d_id d"
      then have "d_id d \<in> set (map d_id ds)" using that by (metis image_eqI set_map)
      with 2 show False by simp
    qed
    then show ?thesis using 1 3 by (simp add: ids_new_def list_all_iff)
  qed
  show ?case using Cons.IH [OF n] by (simp add: add_all_Cons a)
qed

text \<open>
  The loop over the candidates when the encoder answers for every candidate it confirms.
\<close>

lemma process_candidates_loop:
  assumes "list_all (encodable E) (filter auto_confirmed cands)"
  shows "fst (process_candidates E s cands) = Inr ()
    \<and> pending_entities (snd (process_candidates E s cands))
        = pending_entities s @ filter (\<lambda>c. \<not> auto_confirmed c) cands
    \<and> pending_file (snd (process_candidates E s cands)) = pending_file s
    \<and> user_store (snd (process_candidates E s cands))
        = add_all (user_store s) (map snd (filter (\<lambda>p. is_user_level (c_type (fst p)))
            (promotions E (episode_id_or_empty s) (uuid_calls s) (clock_calls s) cands)))
    \<and> project_store (snd (process_candidates E s cands))
        = add_all (project_store s) (map snd (filter (\<lambda>p. \<not> is_user_level (c_type (fst p)))
            (promotions E (episode_id_or_empty s) (uuid_calls s) (clock_calls s) cands)))
    \<and> current_episode (snd (process_candidates E s cands))
        = map_option (link_all (map (\<lambda>p. d_id (snd p))
            (promotions E (episode_id_or_empty s) (uuid_calls s) (clock_calls s) cands))) (current_episode s)
    \<and> uuid_calls (snd (process_candidates E s cands))
        = uuid_calls s + length (filter auto_confirmed cands)
    \<and> clock_calls (snd (process_candidates E s cands))
        = clock_calls s + length (filter auto_confirmed cands)
    \<and> episode_id_or_empty (snd (process_candidates E s cands)) = episode_id_or_empty s"
  using assms
proof (induction cands arbitrary: s)
  case Nil
  show ?case by (cases "current_episode s") (simp_all add: link_all_def add_all_def)
next
  case (Cons c cands)
  show ?case
  proof (cases "auto_confirmed c")
    case True
    let ?reason = "Some (auto_confirm_reason E (c_confidence c))"
    let ?r = "add_entity E s (c_type c) (c_extracted_content c) ?reason None"
    let ?d = "entity_doc E s (c_type c) (c_extracted_content c) ?reason None
                (the (encode_reply E (c_extracted_content c)))"
    have enc: "encode_reply E (c_extracted_content c) \<noteq> None"
      using Cons.prems True by (simp add: encodable_def)
    note eff = add_entity_effect [OF enc, of s "c_type c" ?reason None]
    obtain x s1 where r: "?r = (Inr x, s1)"
      using eff by (cases ?r) auto
    have step: "process_candidates E s (c # cands) = process_candidates E s1 cands"
      using True r by (simp add: auto_confirmed_def)
    have ih: "list_all (encodable E) (filter auto_confirmed cands)"
      using Cons.prems True by simp
    note IH = Cons.IH [OF ih, of s1]
    have s1: "user_store s1 = (if is_user_level (c_type c) then collection_add (user_store s) ?d
           else user_store s)"
       "project_store s1 = (if is_user_level (c_type c) then project_store s
           else collection_add (project_store s) ?d)"
       "pending_entities s1 = pending_entities s"
       "pending_file s1 = pending_file s"
       "current_episode s1 = map_option (link_entity (asc ''ent_'' @ uuid4_hex8 E (uuid_calls s))) (current_episode s)"
       "uuid_calls s1 = uuid_calls s + 1" "clock_calls s1 = clock_calls s + 1"
       "episode_id_or_empty s1 = episode_id_or_empty s"
      using eff r by simp_all
    have p: "promotions E (episode_id_or_empty s) (uuid_calls s) (clock_calls s) (c # cands)
        = (c, ?d) # promotions E (episode_id_or_empty s) (uuid_calls s + 1) (clock_calls s + 1) cands"
      using True by (simp add: entity_doc_def)
    have i: "d_id ?d = asc ''ent_'' @ uuid4_hex8 E (uuid_calls s)"
      by (simp add: entity_doc_def)
    show ?thesis
      unfolding step p
      using IH True
      by (cases "current_episode s")
         (simp_all add: s1 i add_all_Cons link_all_def link_entity_def)
  next
    case False
    have step: "process_candidates E s (c # cands)
        = process_candidates E (s\<lparr>pending_entities := pending_entities s @ [c]\<rparr>) cands"
      using False by (simp add: auto_confirmed_def)
    have ih: "list_all (encodable E) (filter auto_confirmed cands)"
      using Cons.prems False by simp
    note IH = Cons.IH [OF ih, of "s\<lparr>pending_entities := pending_entities s @ [c]\<rparr>"]
    have e: "episode_id_or_empty (s\<lparr>pending_entities := pending_entities s @ [c]\<rparr>) = episode_id_or_empty s"
      by (simp add: episode_id_or_empty_def)
    show ?thesis using IH False
      unfolding e
      by (simp add: step del: process_candidates.simps)
  qed
qed

text \<open>The loop stops at the first confirmed candidate on which the encoder fails.\<close>

lemma process_candidates_append:
  "process_candidates E s (xs @ ys) =
     (case process_candidates E s xs of
        (Inl e, s') \<Rightarrow> (Inl e, s')
      | (Inr u, s') \<Rightarrow> process_candidates E s' ys)"
  by (induction xs arbitrary: s) (auto split: prod.splits sum.splits)

lemma process_candidates_stops:
  assumes "list_all (encodable E) (filter auto_confirmed pre)"
    and "auto_confirmed c" and "encode_reply E (c_extracted_content c) = None"
  shows "fst (process_candidates E s (pre @ c # post)) = Inl RuntimeError
    \<and> pending_entities (snd (process_candidates E s (pre @ c # post)))
        = pending_entities s @ filter (\<lambda>c. \<not> auto_confirmed c) pre
    \<and> pending_file (snd (process_candidates E s (pre @ c # post))) = pending_file s
    \<and> user_store (snd (process_candidates E s (pre @ c # post)))
        = add_all (user_store s) (map snd (filter (\<lambda>p. is_user_level (c_type (fst p)))
            (promotions E (episode_id_or_empty s) (uuid_calls s) (clock_calls s) pre)))
    \<and> project_store (snd (process_candidates E s (pre @ c # post)))
        = add_all (project_store s) (map snd (filter (\<lambda>p. \<not> is_user_level (c_type (fst p)))
            (promotions E (episode_id_or_empty s) (uuid_calls s) (clock_calls s) pre)))
    \<and> current_episode (snd (process_candidates E s (pre @ c # post)))
        = map_option (link_all (map (\<lambda>p. d_id (snd p))
            (promotions E (episode_id_or_empty s) (uuid_calls s) (clock_calls s) pre))) (current_episode s)"
proof -
  obtain r s1 where p: "process_candidates E s pre = (r, s1)"
    by (cases "process_candidates E s pre")
  note l = process_candidates_loop [OF assms(1), of s]
  have r: "r = Inr ()" using l p by simp
  have c: "process_candidates E s1 (c # post)
      = (Inl RuntimeError, s1\<lparr>uuid_calls := uuid_calls s1 + 1, clock_calls := clock_calls s1 + 1\<rparr>)"
    using assms(2) add_entity_fails [OF assms(3)] by (simp add: auto_confirmed_def)
  have a: "process_candidates E s (pre @ c # post)
      = (Inl RuntimeError, s1\<lparr>uuid_calls := uuid_calls s1 + 1, clock_calls := clock_calls s1 + 1\<rparr>)"
    by (simp add: process_candidates_append p r c del: process_candidates.simps)
  show ?thesis using l unfolding a p by simp
qed

text \<open>Detection draws ids and clock readings and changes nothing else of the manager.\<close>

lemma draws_only_refl: "draws_only st st"
  by (simp add: draws_only_def after_draws_def)

lemma draws_only_trans: "draws_only a b \<Longrightarrow> draws_only b c \<Longrightarrow> draws_only a c"
  by (auto simp: draws_only_def after_draws_def)

lemma new_candidate_draws:
  "new_candidate E s ty x content conf meth = (c, s') \<Longrightarrow>
   draws_only (cands, seen, s) (cands @ [c], seen', s')"
  by (auto simp: new_candidate_def draw_uuid_def read_clock_def draws_only_def after_draws_def)

lemma match_loop_draws:
  "draws_only (cands, seen, s) (match_loop E ty r content ms (cands, seen, s))"
proof (induction ms arbitrary: cands seen s)
  case Nil
  show ?case by (simp add: draws_only_refl)
next
  case (Cons m ms)
  show ?case
  proof (cases "extracted_of m \<noteq> [] \<and> length (extracted_of m) > 3 \<and> extracted_of m \<notin> seen")
    case True
    obtain c s' where nc: "new_candidate E s ty (extracted_of m) content (rl_min_confidence r + PATTERN_BONUS) (asc ''pattern'') = (c, s')"
      by (cases "new_candidate E s ty (extracted_of m) content (rl_min_confidence r + PATTERN_BONUS) (asc ''pattern'')")
    have step: "match_loop E ty r content (m # ms) (cands, seen, s)
        = match_loop E ty r content ms (cands @ [c], insert (extracted_of m) seen, s')"
      using True nc by (simp add: Let_def)
    show ?thesis
      unfolding step
      using draws_only_trans [OF new_candidate_draws [OF nc, of cands seen "insert (extracted_of m) seen"]
          Cons.IH [of "cands @ [c]" "insert (extracted_of m) seen" s']] .
  next
    case False
    have step: "match_loop E ty r content (m # ms) (cands, seen, s)
        = match_loop E ty r content ms (cands, seen, s)"
      using False by (auto simp: Let_def)
    show ?thesis unfolding step using Cons.IH [of cands seen s] .
  qed
qed

lemma pattern_loop_draws: "draws_only st (pattern_loop E ty r content ps st)"
proof (induction ps arbitrary: st)
  case Nil
  show ?case by (simp add: draws_only_refl)
next
  case (Cons p ps)
  obtain cands seen s where st: "st = (cands, seen, s)" by (cases st) auto
  show ?case
    using draws_only_trans [OF match_loop_draws [of cands seen s E ty r content "re_findall E p content"]
        Cons.IH [of "match_loop E ty r content (re_findall E p content) (cands, seen, s)"]]
    by (simp add: st)
qed

lemma sentence_loop_draws:
  "draws_only (cands, seen, s) (sentence_loop E ty r content sens (cands, seen, s))"
proof (induction sens)
  case Nil
  show ?case by (simp add: draws_only_refl)
next
  case (Cons sen sens)
  obtain c s' where nc: "new_candidate E s ty sen content (rl_min_confidence r) (asc ''keyword'') = (c, s')"
    by (cases "new_candidate E s ty sen content (rl_min_confidence r) (asc ''keyword'')")
  show ?case
    using Cons new_candidate_draws [OF nc, of cands seen "insert sen seen"]
    by (simp add: nc draws_only_refl)
qed

lemma keyword_stage_draws: "draws_only st (keyword_stage E ty r content st)"
proof -
  obtain cands seen s where st: "st = (cands, seen, s)" by (cases st) auto
  show ?thesis
    using sentence_loop_draws [of cands seen s E ty r content "split_on sentence_delimiter [] content"]
    by (simp add: st keyword_stage_def draws_only_refl)
qed

lemma rules_loop_draws: "draws_only st (rules_loop E content table st)"
proof (induction table arbitrary: st)
  case Nil
  show ?case by (simp add: draws_only_refl)
next
  case (Cons tr table)
  obtain ty r where tr: "tr = (ty, r)" by (cases tr)
  show ?case
    unfolding tr rules_loop.simps
    using draws_only_trans [OF draws_only_trans [OF pattern_loop_draws keyword_stage_draws] Cons.IH] .
qed

lemma detect_candidates_draws:
  "snd (detect_candidates E s content) = after_draws (length (detected E s content)) s"
proof -
  obtain cands seen s' where r: "rules_loop E content DETECTION_RULES ([], {}, s) = (cands, seen, s')"
    by (cases "rules_loop E content DETECTION_RULES ([], {}, s)") auto
  show ?thesis
    using rules_loop_draws [of "([], {}, s)" E content DETECTION_RULES]
    by (simp add: r detected_def detect_candidates_def detect_candidates_with_def draws_only_def)
qed

lemma detect_and_process_entities_unfold:
  "detect_and_process_entities E s content =
     (case process_candidates E (after_draws (length (detected E s content)) s) (detected E s content) of
        (Inl e, s2) \<Rightarrow> (Inl e, s2)
      | (Inr u, s2) \<Rightarrow> (Inr (), save_pending_entities s2))"
proof -
  have "detect_candidates E s content
      = (detected E s content, after_draws (length (detected E s content)) s)"
    using detect_candidates_draws [of E s content]
    by (cases "detect_candidates E s content") (simp add: detected_def)
  then show ?thesis by (simp add: detect_and_process_entities_def)
qed

text \<open>What detection finds in the example text, with the worker up and down.\<close>

lemma routing_detected:
  "detect_candidates routing_env routing_state routing_text
     = ([decision_candidate, preference_candidate], routing_state\<lparr>uuid_calls := 2, clock_calls := 2\<rparr>)"
  by (simp add: detect_candidates_def detect_candidates_with_def DETECTION_RULES_def
      keyword_stage_def has_keyword_def extracted_of_def new_candidate_def draw_uuid_def
      read_clock_def routing_env_def DECIDE_PATTERN_def routing_text_def quiet_env_def
      routing_state_def empty_manager_def sentence_delimiter_def py_strip_def py_isspace_def
      decision_candidate_def preference_candidate_def PATTERN_BONUS_def str_of_nat.simps
      asc_def Let_def)

lemma routing_detected_down:
  "detect_candidates (worker_down routing_env) routing_state routing_text
     = ([decision_candidate, preference_candidate], routing_state\<lparr>uuid_calls := 2, clock_calls := 2\<rparr>)"
  by (simp add: detect_candidates_def detect_candidates_with_def DETECTION_RULES_def
      keyword_stage_def has_keyword_def extracted_of_def new_candidate_def draw_uuid_def
      read_clock_def routing_env_def DECIDE_PATTERN_def routing_text_def quiet_env_def
      worker_down_def
      routing_state_def empty_manager_def sentence_delimiter_def py_strip_def py_isspace_def
      decision_candidate_def preference_candidate_def PATTERN_BONUS_def str_of_nat.simps
      asc_def Let_def)

text \<open>
  C6, as amended. \<open>_detect_and_process_entities\<close> on any text, in any state of the
  manager. When the encoder answers for every detected candidate that is confirmed, the
  call completes without an exception; every detected candidate whose confidence is at
  least 0.85 becomes, in order, a record with the candidate's content and type and the
  status \<open>active\<close>, added to the user store when the type is Preference, Concept or Habit
  and to the project store otherwise, and the ids of these records are appended, in
  order, to the entity list of the active episode (when there is one); every other
  detected candidate is appended to the pending queue, nothing else is, and the queue is
  written to the pending file. The adds append the records when their ids are pairwise
  different and new to the store; an add whose id the store holds is ignored by the
  store. When the encoder fails on a confirmed candidate, \<open>RuntimeError\<close> is raised
  there: the candidates before it have been routed, that candidate and the later ones
  are neither stored nor queued, and the pending file is not written.
\<close>

theorem detect_and_process_entities_routes:
  "(list_all (encodable E) (filter auto_confirmed (detected E s content)) \<longrightarrow>
      fst (detect_and_process_entities E s content) = Inr ()
      \<and> pending_entities (snd (detect_and_process_entities E s content))
          = pending_entities s @ filter (\<lambda>c. \<not> auto_confirmed c) (detected E s content)
      \<and> pending_file (snd (detect_and_process_entities E s content))
          = Some (Json (pending_entities s @ filter (\<lambda>c. \<not> auto_confirmed c) (detected E s content)))
      \<and> user_store (snd (detect_and_process_entities E s content))
          = add_all (user_store s) (map snd (filter (\<lambda>p. is_user_level (c_type (fst p)))
              (routed E s content (detected E s content))))
      \<and> project_store (snd (detect_and_process_entities E s content))
          = add_all (project_store s) (map snd (filter (\<lambda>p. \<not> is_user_level (c_type (fst p)))
              (routed E s content (detected E s content))))
      \<and> current_episode (snd (detect_and_process_entities E s content))
          = map_option (link_all (map (\<lambda>p. d_id (snd p)) (routed E s content (detected E s content))))
              (current_episode s))
   \<and> (detected E s content = pre @ c # post
        \<and> list_all (encodable E) (filter auto_confirmed pre)
        \<and> auto_confirmed c \<and> encode_reply E (c_extracted_content c) = None \<longrightarrow>
      fst (detect_and_process_entities E s content) = Inl RuntimeError
      \<and> pending_entities (snd (detect_and_process_entities E s content))
          = pending_entities s @ filter (\<lambda>c. \<not> auto_confirmed c) pre
      \<and> pending_file (snd (detect_and_process_entities E s content)) = pending_file s
      \<and> user_store (snd (detect_and_process_entities E s content))
          = add_all (user_store s) (map snd (filter (\<lambda>p. is_user_level (c_type (fst p)))
              (routed E s content pre)))
      \<and> project_store (snd (detect_and_process_entities E s content))
          = add_all (project_store s) (map snd (filter (\<lambda>p. \<not> is_user_level (c_type (fst p)))
              (routed E s content pre)))
      \<and> current_episode (snd (detect_and_process_entities E s content))
          = map_option (link_all (map (\<lambda>p. d_id (snd p)) (routed E s content pre)))
              (current_episode s))
   \<and> map fst (routed E s content cands) = filter auto_confirmed cands
   \<and> list_all promoted_of (routed E s content cands)
   \<and> (ids_new store ds \<longrightarrow> add_all store ds = store @ ds)
   \<and> add_all store (d # ds) = add_all (collection_add store d) ds
   \<and> add_all store [] = store"
proof -
  let ?n = "length (detected E s content)"
  let ?s1 = "after_draws ?n s"
  have f: "episode_id_or_empty ?s1 = episode_id_or_empty s" "uuid_calls ?s1 = uuid_calls s + ?n"
    "clock_calls ?s1 = clock_calls s + ?n" "user_store ?s1 = user_store s"
    "project_store ?s1 = project_store s" "pending_entities ?s1 = pending_entities s"
    "pending_file ?s1 = pending_file s" "current_episode ?s1 = current_episode s"
    by (simp_all add: after_draws_def episode_id_or_empty_def)
  have A: "fst (detect_and_process_entities E s content) = Inr ()
      \<and> pending_entities (snd (detect_and_process_entities E s content))
          = pending_entities s @ filter (\<lambda>c. \<not> auto_confirmed c) (detected E s content)
      \<and> pending_file (snd (detect_and_process_entities E s content))
          = Some (Json (pending_entities s @ filter (\<lambda>c. \<not> auto_confirmed c) (detected E s content)))
      \<and> user_store (snd (detect_and_process_entities E s content))
          = add_all (user_store s) (map snd (filter (\<lambda>p. is_user_level (c_type (fst p)))
              (routed E s content (detected E s content))))
      \<and> project_store (snd (detect_and_process_entities E s content))
          = add_all (project_store s) (map snd (filter (\<lambda>p. \<not> is_user_level (c_type (fst p)))
              (routed E s content (detected E s content))))
      \<and> current_episode (snd (detect_and_process_entities E s content))
          = map_option (link_all (map (\<lambda>p. d_id (snd p)) (routed E s content (detected E s content))))
              (current_episode s)"
    if h: "list_all (encodable E) (filter auto_confirmed (detected E s content))"
  proof -
    obtain r s2 where p: "process_candidates E ?s1 (detected E s content) = (r, s2)"
      by (cases "process_candidates E ?s1 (detected E s content)")
    note l = process_candidates_loop [OF h, of ?s1]
    have r: "r = Inr ()" using l p by simp
    have d: "detect_and_process_entities E s content = (Inr (), save_pending_entities s2)"
      by (simp add: detect_and_process_entities_unfold p r)
    show ?thesis
      using l unfolding d p f routed_def by (simp add: save_pending_entities_def)
  qed
  have B: "fst (detect_and_process_entities E s content) = Inl RuntimeError
      \<and> pending_entities (snd (detect_and_process_entities E s content))
          = pending_entities s @ filter (\<lambda>c. \<not> auto_confirmed c) pre
      \<and> pending_file (snd (detect_and_process_entities E s content)) = pending_file s
      \<and> user_store (snd (detect_and_process_entities E s content))
          = add_all (user_store s) (map snd (filter (\<lambda>p. is_user_level (c_type (fst p)))
              (routed E s content pre)))
      \<and> project_store (snd (detect_and_process_entities E s content))
          = add_all (project_store s) (map snd (filter (\<lambda>p. \<not> is_user_level (c_type (fst p)))
              (routed E s content pre)))
      \<and> current_episode (snd (detect_and_process_entities E s content))
          = map_option (link_all (map (\<lambda>p. d_id (snd p)) (routed E s content pre)))
              (current_episode s)"
    if h: "detected E s content = pre @ c # post" "list_all (encodable E) (filter auto_confirmed pre)"
      "auto_confirmed c" "encode_reply E (c_extracted_content c) = None"
  proof -
    obtain r s2 where p: "process_candidates E ?s1 (pre @ c # post) = (r, s2)"
      by (cases "process_candidates E ?s1 (pre @ c # post)")
    note l = process_candidates_stops [OF h(2) h(3) h(4), of ?s1 post]
    have r: "r = Inl RuntimeError" using l p by simp
    have d: "detect_and_process_entities E s content = (Inl RuntimeError, s2)"
      using p r by (simp add: detect_and_process_entities_unfold [of E s content] h(1))
    show ?thesis
      using l unfolding d p f routed_def by simp
  qed
  show ?thesis
    using A B promotions_fst promotions_promoted add_all_new [of store ds] add_all_Cons [of store d ds]
    by (simp add: routed_def add_all_def)
qed

text \<open>
  The text \<open>routing_text\<close> with an active episode. Detection finds a Decision at 0.9 and a
  Preference at 0.6. With the worker up, the Decision becomes a project record linked into
  the episode and the Preference appears only in the pending queue. With the worker down,
  \<open>RuntimeError\<close> is raised at the Decision and the Preference is not queued.
\<close>

theorem detect_and_process_entities_routes_witness:
  "detected routing_env routing_state routing_text = [decision_candidate, preference_candidate]
   \<and> list_all (encodable routing_env) (filter auto_confirmed (detected routing_env routing_state routing_text))
   \<and> fst (detect_and_process_entities routing_env routing_state routing_text) = Inr ()
   \<and> pending_entities (snd (detect_and_process_entities routing_env routing_state routing_text))
       = [preference_candidate]
   \<and> pending_file (snd (detect_and_process_entities routing_env routing_state routing_text))
       = Some (Json [preference_candidate])
   \<and> project_store (snd (detect_and_process_entities routing_env routing_state routing_text))
       = [\<lparr>d_id = asc ''ent_00000002'', d_embedding = [1, 0], d_content = asc ''sqlit'',
            d_metadata = entity_metadata (asc ''Decision'')
                           (Some (auto_confirm_reason routing_env (9 / 10))) None
                           (asc ''ep_11111111'') 1800000000000000\<rparr>]
   \<and> user_store (snd (detect_and_process_entities routing_env routing_state routing_text)) = []
   \<and> current_episode (snd (detect_and_process_entities routing_env routing_state routing_text))
       = Some ((sample_episode ''11111111'' 1800000000000000)\<lparr>ep_entity_ids := [asc ''ent_00000002'']\<rparr>)
   \<and> detected (worker_down routing_env) routing_state routing_text
       = [] @ decision_candidate # [preference_candidate]
   \<and> auto_confirmed decision_candidate
   \<and> encode_reply (worker_down routing_env) (c_extracted_content decision_candidate) = None
   \<and> fst (detect_and_process_entities (worker_down routing_env) routing_state routing_text)
       = Inl RuntimeError
   \<and> pending_entities (snd (detect_and_process_entities (worker_down routing_env) routing_state routing_text))
       = []
   \<and> ids_new [] [note_doc ''00000000'' ''use postgres'']
   \<and> add_all [] [note_doc ''00000000'' ''use postgres''] = [note_doc ''00000000'' ''use postgres'']"
proof -
  let ?E = routing_env
  let ?D = "worker_down routing_env"
  let ?s = routing_state
  let ?x = routing_text
  let ?doc = "\<lparr>d_id = asc ''ent_00000002'', d_embedding = [1, 0], d_content = asc ''sqlit'',
            d_metadata = entity_metadata (asc ''Decision'')
                           (Some (auto_confirm_reason routing_env (9 / 10))) None
                           (asc ''ep_11111111'') 1800000000000000\<rparr>"
  have dt: "detected ?E ?s ?x = [decision_candidate, preference_candidate]"
    by (simp add: detected_def routing_detected)
  have dd: "detected ?D ?s ?x = [] @ decision_candidate # [preference_candidate]"
    by (simp add: detected_def routing_detected_down)
  have ac: "auto_confirmed decision_candidate" "\<not> auto_confirmed preference_candidate"
    by (simp_all add: auto_confirmed_def decision_candidate_def preference_candidate_def
        AUTO_CONFIRM_THRESHOLD_def)
  have h: "list_all (encodable ?E) (filter auto_confirmed (detected ?E ?s ?x))"
    unfolding dt by (simp add: ac encodable_def routing_env_def quiet_env_def)
  have h0: "list_all (encodable ?D) (filter auto_confirmed [])" by simp
  have en: "encode_reply ?D (c_extracted_content decision_candidate) = None"
    by (simp add: worker_down_def)
  have R: "routed ?E ?s ?x (detected ?E ?s ?x) = [(decision_candidate, ?doc)]"
    unfolding routed_def dt
    by (simp add: auto_confirmed_def AUTO_CONFIRM_THRESHOLD_def decision_candidate_def
        preference_candidate_def routing_state_def empty_manager_def sample_episode_def
        routing_env_def quiet_env_def episode_id_or_empty_def str_of_nat.simps asc_def)
  have n: "ids_new [] [note_doc ''00000000'' ''use postgres'']"
    by (simp add: ids_new_def)
  note t1 = detect_and_process_entities_routes [where E = ?E and s = ?s and content = ?x
      and pre = "[]" and c = decision_candidate and post = "[preference_candidate]"
      and cands = "[]" and store = "[]" and ds = "[note_doc ''00000000'' ''use postgres'']"
      and d = "note_doc ''00000000'' ''use postgres''"]
  note t2 = detect_and_process_entities_routes [where E = ?D and s = ?s and content = ?x
      and pre = "[]" and c = decision_candidate and post = "[preference_candidate]"
      and cands = "[]" and store = "[]" and ds = "[]" and d = "note_doc ''00000000'' ''use postgres''"]
  have a: "fst (detect_and_process_entities ?E ?s ?x) = Inr ()"
    using t1 h by blast
  have b0: "pending_entities (snd (detect_and_process_entities ?E ?s ?x))
       = pending_entities ?s @ filter (\<lambda>c. \<not> auto_confirmed c) (detected ?E ?s ?x)"
    using t1 h by blast
  have b: "pending_entities (snd (detect_and_process_entities ?E ?s ?x)) = [preference_candidate]"
    unfolding b0 dt by (simp add: ac routing_state_def empty_manager_def)
  have c0: "pending_file (snd (detect_and_process_entities ?E ?s ?x))
       = Some (Json (pending_entities ?s @ filter (\<lambda>c. \<not> auto_confirmed c) (detected ?E ?s ?x)))"
    using t1 h by blast
  have c: "pending_file (snd (detect_and_process_entities ?E ?s ?x)) = Some (Json [preference_candidate])"
    unfolding c0 dt by (simp add: ac routing_state_def empty_manager_def)
  have d0: "project_store (snd (detect_and_process_entities ?E ?s ?x))
       = add_all (project_store ?s) (map snd (filter (\<lambda>p. \<not> is_user_level (c_type (fst p)))
              (routed ?E ?s ?x (detected ?E ?s ?x))))"
    using t1 h by blast
  have d: "project_store (snd (detect_and_process_entities ?E ?s ?x)) = [?doc]"
    unfolding d0 R
    by (simp add: add_all_def collection_add_def routing_state_def empty_manager_def
        decision_candidate_def is_user_level_def)
  have e0: "user_store (snd (detect_and_process_entities ?E ?s ?x))
       = add_all (user_store ?s) (map snd (filter (\<lambda>p. is_user_level (c_type (fst p)))
              (routed ?E ?s ?x (detected ?E ?s ?x))))"
    using t1 h by blast
  have e: "user_store (snd (detect_and_process_entities ?E ?s ?x)) = []"
    unfolding e0 R
    by (simp add: add_all_def routing_state_def empty_manager_def
        decision_candidate_def is_user_level_def)
  have f0: "current_episode (snd (detect_and_process_entities ?E ?s ?x))
       = map_option (link_all (map (\<lambda>p. d_id (snd p)) (routed ?E ?s ?x (detected ?E ?s ?x))))
              (current_episode ?s)"
    using t1 h by blast
  have f: "current_episode (snd (detect_and_process_entities ?E ?s ?x))
       = Some ((sample_episode ''11111111'' 1800000000000000)\<lparr>ep_entity_ids := [asc ''ent_00000002'']\<rparr>)"
    unfolding f0 R
    by (simp add: routing_state_def empty_manager_def link_all_def sample_episode_def)
  have g: "fst (detect_and_process_entities ?D ?s ?x) = Inl RuntimeError"
    using t2 dd h0 ac(1) en by blast
  have i0: "pending_entities (snd (detect_and_process_entities ?D ?s ?x))
       = pending_entities ?s @ filter (\<lambda>c. \<not> auto_confirmed c) []"
    using t2 dd h0 ac(1) en by blast
  have i: "pending_entities (snd (detect_and_process_entities ?D ?s ?x)) = []"
    unfolding i0 by (simp add: routing_state_def empty_manager_def)
  have j: "add_all [] [note_doc ''00000000'' ''use postgres''] = [] @ [note_doc ''00000000'' ''use postgres'']"
    using t1 n by blast
  from dt h a b c d e f dd ac(1) en g i n j show ?thesis by simp
qed

text \<open>
  C6, as stated, fails when the encoder is down: \<open>routing_text\<close> holds a Decision detected
  at confidence 0.9 (the first Decision pattern matches) and a Preference detected at
  0.6, yet \<open>_detect_and_process_entities\<close> raises \<open>RuntimeError\<close>; the Decision is not
  stored in any tier and not linked into the active episode, and the Preference does not
  appear in the pending queue.
\<close>

theorem detect_and_process_entities_counterexample:
  "DECIDE_PATTERN \<in> set (rl_patterns (snd (hd DETECTION_RULES)))
   \<and> re_findall (worker_down routing_env) DECIDE_PATTERN routing_text = [MOne (asc ''sqlit'')]
   \<and> fst (detect_candidates (worker_down routing_env) routing_state routing_text)
       = [decision_candidate, preference_candidate]
   \<and> c_confidence decision_candidate = 9 / 10
   \<and> c_confidence preference_candidate = 6 / 10
   \<and> detect_and_process_entities (worker_down routing_env) routing_state routing_text
       = (Inl RuntimeError, routing_state\<lparr>uuid_calls := 3, clock_calls := 3\<rparr>)
   \<and> project_store routing_state = []
   \<and> user_store routing_state = []
   \<and> pending_entities routing_state = []
   \<and> current_episode routing_state = Some (sample_episode ''11111111'' 1800000000000000)"
proof -
  have a: "DECIDE_PATTERN \<in> set (rl_patterns (snd (hd DETECTION_RULES)))"
    by (simp add: DETECTION_RULES_def DECIDE_PATTERN_def)
  have b: "re_findall (worker_down routing_env) DECIDE_PATTERN routing_text = [MOne (asc ''sqlit'')]"
    by (simp add: worker_down_def routing_env_def)
  have c: "c_confidence decision_candidate = 9 / 10" "c_confidence preference_candidate = 6 / 10"
    by (simp_all add: decision_candidate_def preference_candidate_def)
  have d: "detect_and_process_entities (worker_down routing_env) routing_state routing_text
       = (Inl RuntimeError, routing_state\<lparr>uuid_calls := 3, clock_calls := 3\<rparr>)"
    unfolding detect_and_process_entities_def routing_detected_down
    by (simp add: AUTO_CONFIRM_THRESHOLD_def add_entity_def draw_uuid_def read_clock_def
        store_add_def encode_text_def worker_down_def Let_def decision_candidate_def)
  have e: "project_store routing_state = []" "user_store routing_state = []"
    "pending_entities routing_state = []"
    "current_episode routing_state = Some (sample_episode ''11111111'' 1800000000000000)"
    by (simp_all add: routing_state_def empty_manager_def)
  from a b c d e show ?thesis by (simp add: routing_detected_down)
qed

section \<open>Episodes\<close>

lemma close_episode_ok:
  assumes "current_episode s = Some ep"
    and "summary' = (case summary of None \<Rightarrow> generate_summary ep (current_messages s)
                     | Some sm \<Rightarrow> if sm = [] then generate_summary ep (current_messages s) else sm)"
    and "encode_reply E summary' = Some v"
  shows "close_episode E s summary =
     (Inr (Some (ep, summary')),
      s\<lparr>clock_calls := clock_calls s + 1,
        project_store := collection_add (project_store s) (archived_doc E s ep summary' v),
        current_episode := None, current_messages := [],
        state_file := Some (Json (None, []))\<rparr>)"
  using assms
  by (simp add: close_episode_def read_clock_def store_add_def encode_text_def Let_def
      save_active_episode_def archived_doc_def)

lemma close_episode_fails:
  assumes "current_episode s = Some ep"
    and "summary' = (case summary of None \<Rightarrow> generate_summary ep (current_messages s)
                     | Some sm \<Rightarrow> if sm = [] then generate_summary ep (current_messages s) else sm)"
    and "encode_reply E summary' = None"
  shows "close_episode E s summary = (Inl RuntimeError, s\<lparr>clock_calls := clock_calls s + 1\<rparr>)"
  using assms
  by (simp add: close_episode_def read_clock_def store_add_def encode_text_def Let_def)

lemma archived_doc_completed: "is_archived_episode (archived_doc E s ep summary v)"
  by (simp add: is_archived_episode_def archived_doc_def episode_metadata_def asc_def)

text \<open>
  C5, as amended. The manager holds its active episode in one slot, so at most one
  episode is active; \<open>start_episode\<close> keeps it so. With no active episode it opens a new
  one: status \<open>active\<close>, the next id drawn from \<open>uuid4\<close>, no entities, no messages. With
  an active episode whose summary the encoder encodes, it first closes that one, adding
  it to the project store as an Episode record with the status \<open>completed\<close> under the old
  id (the record is appended, unless the store already holds that id: then the store
  ignores the add), and then opens the new one in the same way. When the encoder fails
  on the summary, \<open>close_episode\<close> raises \<open>RuntimeError\<close>, the old episode stays the
  active one, nothing is archived and no new episode is opened.
\<close>

theorem start_episode_single_active:
  "(current_episode s = None \<longrightarrow>
      start_episode E s title tags =
        (Inr (opened_episode E (uuid_calls s) (clock_calls s) title tags),
         s\<lparr>uuid_calls := uuid_calls s + 1, clock_calls := clock_calls s + 1,
           current_episode := Some (opened_episode E (uuid_calls s) (clock_calls s) title tags),
           current_messages := [],
           state_file := Some (Json (Some (opened_episode E (uuid_calls s) (clock_calls s) title tags), []))\<rparr>))
   \<and> (current_episode s = Some old
        \<and> encode_reply E (generate_summary old (current_messages s)) = Some v \<longrightarrow>
      start_episode E s title tags =
        (Inr (opened_episode E (uuid_calls s) (clock_calls s + 1) title tags),
         s\<lparr>uuid_calls := uuid_calls s + 1, clock_calls := clock_calls s + 2,
           project_store := collection_add (project_store s)
              (archived_doc E s old (generate_summary old (current_messages s)) v),
           current_episode := Some (opened_episode E (uuid_calls s) (clock_calls s + 1) title tags),
           current_messages := [],
           state_file := Some (Json (Some (opened_episode E (uuid_calls s) (clock_calls s + 1) title tags), []))\<rparr>)
      \<and> collection_add (project_store s)
            (archived_doc E s old (generate_summary old (current_messages s)) v)
          = (if ep_id old \<in> set (map d_id (project_store s)) then project_store s
             else project_store s @ [archived_doc E s old (generate_summary old (current_messages s)) v])
      \<and> d_id (archived_doc E s old (generate_summary old (current_messages s)) v) = ep_id old
      \<and> is_archived_episode (archived_doc E s old (generate_summary old (current_messages s)) v))
   \<and> (current_episode s = Some old
        \<and> encode_reply E (generate_summary old (current_messages s)) = None \<longrightarrow>
      start_episode E s title tags = (Inl RuntimeError, s\<lparr>clock_calls := clock_calls s + 1\<rparr>)
      \<and> current_episode (snd (start_episode E s title tags)) = Some old
      \<and> project_store (snd (start_episode E s title tags)) = project_store s)
   \<and> ep_status (opened_episode E u t title tags) = asc ''active''
   \<and> ep_entity_ids (opened_episode E u t title tags) = []
   \<and> ep_id (opened_episode E u t title tags) = asc ''ep_'' @ uuid4_hex8 E u"
proof -
  have A: "current_episode s = None \<Longrightarrow>
      start_episode E s title tags =
        (Inr (opened_episode E (uuid_calls s) (clock_calls s) title tags),
         s\<lparr>uuid_calls := uuid_calls s + 1, clock_calls := clock_calls s + 1,
           current_episode := Some (opened_episode E (uuid_calls s) (clock_calls s) title tags),
           current_messages := [],
           state_file := Some (Json (Some (opened_episode E (uuid_calls s) (clock_calls s) title tags), []))\<rparr>)"
    by (simp add: start_episode_def draw_uuid_def read_clock_def Let_def save_active_episode_def
        opened_episode_def)
  have B: "current_episode s = Some old \<Longrightarrow>
      encode_reply E (generate_summary old (current_messages s)) = Some v \<Longrightarrow>
      start_episode E s title tags =
        (Inr (opened_episode E (uuid_calls s) (clock_calls s + 1) title tags),
         s\<lparr>uuid_calls := uuid_calls s + 1, clock_calls := clock_calls s + 2,
           project_store := collection_add (project_store s)
              (archived_doc E s old (generate_summary old (current_messages s)) v),
           current_episode := Some (opened_episode E (uuid_calls s) (clock_calls s + 1) title tags),
           current_messages := [],
           state_file := Some (Json (Some (opened_episode E (uuid_calls s) (clock_calls s + 1) title tags), []))\<rparr>)"
    using close_episode_ok [of s old "generate_summary old (current_messages s)" None E v]
    by (simp add: start_episode_def draw_uuid_def read_clock_def Let_def save_active_episode_def
        opened_episode_def)
  have C: "current_episode s = Some old \<Longrightarrow>
      encode_reply E (generate_summary old (current_messages s)) = None \<Longrightarrow>
      start_episode E s title tags = (Inl RuntimeError, s\<lparr>clock_calls := clock_calls s + 1\<rparr>)"
    using close_episode_fails [of s old "generate_summary old (current_messages s)" None E]
    by (simp add: start_episode_def)
  have D: "collection_add (project_store s)
            (archived_doc E s old (generate_summary old (current_messages s)) v)
          = (if ep_id old \<in> set (map d_id (project_store s)) then project_store s
             else project_store s @ [archived_doc E s old (generate_summary old (current_messages s)) v])"
    by (simp add: collection_add_def archived_doc_def)
  have C': "current_episode s = Some old \<Longrightarrow>
      encode_reply E (generate_summary old (current_messages s)) = None \<Longrightarrow>
      current_episode (snd (start_episode E s title tags)) = Some old
      \<and> project_store (snd (start_episode E s title tags)) = project_store s"
    using C by simp
  have F: "d_id (archived_doc E s old (generate_summary old (current_messages s)) v) = ep_id old"
    by (simp add: archived_doc_def)
  have G: "ep_status (opened_episode E u t title tags) = asc ''active''
      \<and> ep_entity_ids (opened_episode E u t title tags) = []
      \<and> ep_id (opened_episode E u t title tags) = asc ''ep_'' @ uuid4_hex8 E u"
    by (simp add: opened_episode_def)
  show ?thesis
    using A B C C' D F G archived_doc_completed [of E s old "generate_summary old (current_messages s)" v]
    by blast
qed

text \<open>
  The three cases at concrete states: no active episode; an active episode that is
  archived before the new one opens; the worker down.
\<close>

theorem start_episode_single_active_witness:
  "current_episode empty_manager = None
   \<and> start_episode (quiet_env 1800000000000000) empty_manager (asc ''indexing'') (Some [asc ''db''])
       = (Inr \<lparr>ep_id = asc ''ep_00000000'', ep_title = asc ''indexing'', ep_tags = [asc ''db''],
               ep_status = asc ''active'', ep_created_at = 1800000000000000, ep_entity_ids = []\<rparr>,
          empty_manager\<lparr>uuid_calls := 1, clock_calls := 1,
            current_episode := Some \<lparr>ep_id = asc ''ep_00000000'', ep_title = asc ''indexing'',
               ep_tags = [asc ''db''], ep_status = asc ''active'', ep_created_at = 1800000000000000,
               ep_entity_ids = []\<rparr>,
            state_file := Some (Json (Some \<lparr>ep_id = asc ''ep_00000000'', ep_title = asc ''indexing'',
               ep_tags = [asc ''db''], ep_status = asc ''active'', ep_created_at = 1800000000000000,
               ep_entity_ids = []\<rparr>, []))\<rparr>)
   \<and> current_episode routing_state = Some (sample_episode ''11111111'' 1800000000000000)
   \<and> encode_reply (quiet_env 1800000000000000)
        (generate_summary (sample_episode ''11111111'' 1800000000000000) (current_messages routing_state))
       = Some [1, 0]
   \<and> project_store (snd (start_episode (quiet_env 1800000000000000) routing_state (asc ''indexing'') None))
       = [\<lparr>d_id = asc ''ep_11111111'', d_embedding = [1, 0], d_content = asc ''storage layer'',
            d_metadata = episode_metadata (sample_episode ''11111111'' 1800000000000000) 0 1800000000000000\<rparr>]
   \<and> current_episode (snd (start_episode (quiet_env 1800000000000000) routing_state (asc ''indexing'') None))
       = Some \<lparr>ep_id = asc ''ep_00000000'', ep_title = asc ''indexing'', ep_tags = [],
               ep_status = asc ''active'', ep_created_at = 1800000000000000, ep_entity_ids = []\<rparr>
   \<and> current_messages (snd (start_episode (quiet_env 1800000000000000) routing_state (asc ''indexing'') None)) = []
   \<and> encode_reply (worker_down (quiet_env 1800000000000000))
        (generate_summary (sample_episode ''11111111'' 1800000000000000) (current_messages routing_state))
       = None
   \<and> start_episode (worker_down (quiet_env 1800000000000000)) routing_state (asc ''indexing'') None
       = (Inl RuntimeError, routing_state\<lparr>clock_calls := 1\<rparr>)"
proof -
  let ?E = "quiet_env 1800000000000000"
  let ?old = "sample_episode ''11111111'' 1800000000000000"
  have n: "current_episode empty_manager = None" by (simp add: empty_manager_def)
  have o: "current_episode routing_state = Some ?old" by (simp add: routing_state_def)
  have e1: "encode_reply ?E (generate_summary ?old (current_messages routing_state)) = Some [1, 0]"
    by (simp add: quiet_env_def)
  have e2: "encode_reply (worker_down ?E) (generate_summary ?old (current_messages routing_state)) = None"
    by (simp add: worker_down_def)
  note tA = start_episode_single_active [where E = ?E and s = empty_manager and title = "asc ''indexing''"
      and tags = "Some [asc ''db'']" and old = ?old and v = "[]" and u = 0 and t = 0]
  note tB = start_episode_single_active [where E = ?E and s = routing_state and title = "asc ''indexing''"
      and tags = None and old = ?old and v = "[1, 0]" and u = 0 and t = 0]
  note tC = start_episode_single_active [where E = "worker_down ?E" and s = routing_state
      and title = "asc ''indexing''" and tags = None and old = ?old and v = "[]" and u = 0 and t = 0]
  have A0: "start_episode ?E empty_manager (asc ''indexing'') (Some [asc ''db''])
      = (Inr (opened_episode ?E (uuid_calls empty_manager) (clock_calls empty_manager) (asc ''indexing'') (Some [asc ''db''])),
         empty_manager\<lparr>uuid_calls := uuid_calls empty_manager + 1, clock_calls := clock_calls empty_manager + 1,
           current_episode := Some (opened_episode ?E (uuid_calls empty_manager) (clock_calls empty_manager) (asc ''indexing'') (Some [asc ''db''])),
           current_messages := [],
           state_file := Some (Json (Some (opened_episode ?E (uuid_calls empty_manager) (clock_calls empty_manager) (asc ''indexing'') (Some [asc ''db''])), []))\<rparr>)"
    using tA n by blast
  have A: "start_episode ?E empty_manager (asc ''indexing'') (Some [asc ''db''])
       = (Inr \<lparr>ep_id = asc ''ep_00000000'', ep_title = asc ''indexing'', ep_tags = [asc ''db''],
               ep_status = asc ''active'', ep_created_at = 1800000000000000, ep_entity_ids = []\<rparr>,
          empty_manager\<lparr>uuid_calls := 1, clock_calls := 1,
            current_episode := Some \<lparr>ep_id = asc ''ep_00000000'', ep_title = asc ''indexing'',
               ep_tags = [asc ''db''], ep_status = asc ''active'', ep_created_at = 1800000000000000,
               ep_entity_ids = []\<rparr>,
            state_file := Some (Json (Some \<lparr>ep_id = asc ''ep_00000000'', ep_title = asc ''indexing'',
               ep_tags = [asc ''db''], ep_status = asc ''active'', ep_created_at = 1800000000000000,
               ep_entity_ids = []\<rparr>, []))\<rparr>)"
    unfolding A0
    by (simp add: opened_episode_def empty_manager_def quiet_env_def str_of_nat.simps asc_def)
  have B0: "start_episode ?E routing_state (asc ''indexing'') None
      = (Inr (opened_episode ?E (uuid_calls routing_state) (clock_calls routing_state + 1) (asc ''indexing'') None),
         routing_state\<lparr>uuid_calls := uuid_calls routing_state + 1, clock_calls := clock_calls routing_state + 2,
           project_store := collection_add (project_store routing_state)
              (archived_doc ?E routing_state ?old (generate_summary ?old (current_messages routing_state)) [1, 0]),
           current_episode := Some (opened_episode ?E (uuid_calls routing_state) (clock_calls routing_state + 1) (asc ''indexing'') None),
           current_messages := [],
           state_file := Some (Json (Some (opened_episode ?E (uuid_calls routing_state) (clock_calls routing_state + 1) (asc ''indexing'') None), []))\<rparr>)"
    using tB o e1 by blast
  have B1: "project_store (snd (start_episode ?E routing_state (asc ''indexing'') None))
       = [\<lparr>d_id = asc ''ep_11111111'', d_embedding = [1, 0], d_content = asc ''storage layer'',
            d_metadata = episode_metadata ?old 0 1800000000000000\<rparr>]"
    unfolding B0
    by (simp add: archived_doc_def routing_state_def empty_manager_def quiet_env_def sample_episode_def
        generate_summary_def collection_add_def asc_def)
  have B2: "current_episode (snd (start_episode ?E routing_state (asc ''indexing'') None))
       = Some \<lparr>ep_id = asc ''ep_00000000'', ep_title = asc ''indexing'', ep_tags = [],
               ep_status = asc ''active'', ep_created_at = 1800000000000000, ep_entity_ids = []\<rparr>"
    unfolding B0
    by (simp add: opened_episode_def routing_state_def empty_manager_def quiet_env_def str_of_nat.simps asc_def)
  have B3: "current_messages (snd (start_episode ?E routing_state (asc ''indexing'') None)) = []"
    unfolding B0 by simp
  have C0: "start_episode (worker_down ?E) routing_state (asc ''indexing'') None
       = (Inl RuntimeError, routing_state\<lparr>clock_calls := clock_calls routing_state + 1\<rparr>)"
    using tC o e2 by blast
  have C: "start_episode (worker_down ?E) routing_state (asc ''indexing'') None
       = (Inl RuntimeError, routing_state\<lparr>clock_calls := 1\<rparr>)"
    unfolding C0 by (simp add: routing_state_def empty_manager_def)
  from n A o e1 B1 B2 B3 e2 C show ?thesis by blast
qed

text \<open>
  C5, as stated, fails when the encoder is down: with an active episode,
  \<open>start_episode\<close> raises \<open>RuntimeError\<close>; the active episode is not closed, nothing is
  archived in the project store and no new episode is created.
\<close>

theorem start_episode_counterexample:
  "current_episode routing_state = Some (sample_episode ''11111111'' 1800000000000000)
   \<and> project_store routing_state = []
   \<and> start_episode (worker_down (quiet_env 1800000000000000)) routing_state (asc ''indexing'') None
       = (Inl RuntimeError, routing_state\<lparr>clock_calls := 1\<rparr>)
   \<and> current_episode (routing_state\<lparr>clock_calls := 1\<rparr>)
       = Some (sample_episode ''11111111'' 1800000000000000)
   \<and> project_store (routing_state\<lparr>clock_calls := 1\<rparr>) = []"
  by (simp add: start_episode_def close_episode_def read_clock_def store_add_def encode_text_def
      worker_down_def routing_state_def empty_manager_def Let_def)

text \<open>
  C2 at the failing input: on disk, an active episode created 31 minutes before the
  manager is built, with no messages. \<open>__init__\<close> closes it through \<open>close_episode\<close>, which
  archives it: the project store gains an Episode record with \<open>message_count = 0\<close>.
\<close>

theorem init_archives_empty_stale_episode:
  "init (quiet_env 1800000000000000)
     (empty_manager\<lparr>state_file := Some (Json (Some (sample_episode ''11111111'' (1800000000000000 - 31 * minute_us)), []))\<rparr>)
   = (Inr (),
      empty_manager\<lparr>clock_calls := 2, state_file := Some (Json (None, [])),
        project_store :=
          [\<lparr>d_id = asc ''ep_11111111'', d_embedding = [1, 0],
            d_content = stale_summary (asc ''storage layer'') (31 * minute_us),
            d_metadata = episode_metadata (sample_episode ''11111111'' (1800000000000000 - 31 * minute_us))
                           0 1800000000000000\<rparr>]\<rparr>)
   \<and> map_of (episode_metadata (sample_episode ''11111111'' (1800000000000000 - 31 * minute_us))
                0 1800000000000000) (asc ''message_count'') = Some (MInt 0)"
  by (simp add: init_def load_active_episode_def load_pending_entities_def close_stale_episode_def
      close_episode_def read_clock_def store_add_def collection_add_def encode_text_def
      save_active_episode_def Let_def
      STALE_EPISODE_MINUTES_def minute_us_def empty_manager_def quiet_env_def sample_episode_def
      stale_summary_def episode_metadata_def asc_def)

text \<open>
  The same for every stale episode without messages: when the encoder answers,
  \<open>_close_stale_episode\<close> adds it to the project store.
\<close>

lemma close_stale_episode_archives_empty:
  assumes "current_episode s = Some ep" and "current_messages s = []"
    and "datetime_now E (clock_calls s) - ep_created_at ep \<ge> STALE_EPISODE_MINUTES * minute_us"
    and "encode_reply E (stale_summary (ep_title ep) (datetime_now E (clock_calls s) - ep_created_at ep)) = Some v"
  shows "project_store (snd (close_stale_episode E s))
    = collection_add (project_store s)
      \<lparr>d_id = ep_id ep, d_embedding = v,
        d_content = stale_summary (ep_title ep) (datetime_now E (clock_calls s) - ep_created_at ep),
        d_metadata = episode_metadata ep 0 (datetime_now E (clock_calls s + 1))\<rparr>"
proof -
  have ne: "stale_summary (ep_title ep) (datetime_now E (clock_calls s) - ep_created_at ep) \<noteq> []"
    by (simp add: stale_summary_def asc_def)
  show ?thesis
    using assms ne
    by (simp add: close_stale_episode_def close_episode_def read_clock_def store_add_def
        encode_text_def save_active_episode_def Let_def)
qed

section \<open>Retrieval and the encoder\<close>

lemma vector_search_encoder_down:
  "encode_reply E query = None \<Longrightarrow> vector_search E c query top_k w incl = Inl RuntimeError"
  by (simp add: vector_search_def encode_text_def)

lemma keyword_search_returns:
  "0 \<le> top_k \<Longrightarrow> \<exists>items. keyword_search E c query top_k w = Inr items"
  by (simp add: keyword_search_def collection_get_def Let_def)

lemma vector_search_answers:
  "encode_reply E query = Some v \<Longrightarrow> index_answers E c v top_k w \<Longrightarrow> 0 \<le> top_k \<Longrightarrow>
   \<exists>items. vector_search E c query top_k w incl = Inr items"
  using keyword_search_returns [of top_k E c query w]
  by (auto simp: vector_search_def encode_text_def index_answers_def split: qres.splits)

lemma get_by_type_scan:
  "get_by_type c entity_type limit status =
     (if limit < 0 then Inl OverflowError
      else Inr (map to_item (take (nat limit)
             (matching c (Some (WAnd [WEq (asc ''type'') (MStr entity_type),
                                      WEq (asc ''status'') (MStr status)]))))))"
  by (simp add: get_by_type_def collection_get_def)

lemma matching_items:
  "list_all (has_type_and_status entity_type status)
     (map to_item (take n
        (matching c (Some (WAnd [WEq (asc ''type'') (MStr entity_type),
                                 WEq (asc ''status'') (MStr status)])))))"
proof -
  have "has_type_and_status entity_type status (to_item d)"
    if "matches (WAnd [WEq (asc ''type'') (MStr entity_type), WEq (asc ''status'') (MStr status)]) (d_metadata d)" for d
    using that by (simp add: has_type_and_status_def to_item_def)
  then show ?thesis
    by (auto simp: matching_def list_all_iff dest!: in_set_takeD)
qed

text \<open>
  C3, as amended. \<open>recall\<close> raises \<open>RuntimeError\<close> when the embedding worker cannot encode
  the query (warmup failed, worker gone, timeout). Whenever it returns, its result
  carries the degraded-mode note exactly when the encoder was not ready at the start of
  the call; and it does return, with the active episode and the last five messages
  attached, when the worker answers, \<open>top_k\<close> is not negative and the index answers each of
  the three searches (or fails with the index-integrity error the store recovers from).
  \<open>search_by_type\<close> without a query (\<open>None\<close> or the empty string) is the metadata scan
  \<open>get_by_type\<close> on the store of the type, the same whether the worker is up or down: for
  a \<open>top_k\<close> that is not negative it returns the first \<open>top_k\<close> records of the requested
  type and the status searched for; for a negative \<open>top_k\<close> the scan of the store raises
  \<open>OverflowError\<close>.
\<close>

theorem recall_needs_encoder:
  "(encode_reply E query = None \<longrightarrow> recall E s query top_k include_deprecated = Inl RuntimeError)
   \<and> (recall E s query top_k include_deprecated = Inr r \<longrightarrow>
        rr_note r = (if encoder_ready E then None else Some DEGRADED_NOTE))
   \<and> (encode_reply E query = Some v \<and> 0 \<le> top_k
        \<and> index_answers E (project_store s) v top_k
             (Some (if include_deprecated then WNe (asc ''type'') (MStr (asc ''Episode''))
                    else WAnd [WNe (asc ''type'') (MStr (asc ''Episode'')),
                               WEq (asc ''status'') (MStr (asc ''active''))]))
        \<and> index_answers E (project_store s) v top_k
             (Some (WAnd [WEq (asc ''type'') (MStr (asc ''Episode'')),
                          WEq (asc ''status'') (MStr (asc ''completed''))]))
        \<and> index_answers E (user_store s) v top_k
             (if include_deprecated then None else Some (WEq (asc ''status'') (MStr (asc ''active''))))
        \<longrightarrow> (case recall E s query top_k include_deprecated of
                  Inl _ \<Rightarrow> False
                | Inr r' \<Rightarrow> rr_note r' = (if encoder_ready E then None else Some DEGRADED_NOTE)
                    \<and> rr_current_episode r' = current_episode s
                    \<and> rr_recent_messages r' = py_last_n 5 (current_messages s)))
   \<and> (no_query q \<longrightarrow>
        search_by_type E s entity_type q top_k
          = get_by_type (type_store s entity_type) entity_type top_k (type_status entity_type)
        \<and> search_by_type E s entity_type q top_k = search_by_type (worker_down E) s entity_type q top_k)
   \<and> (no_query q \<and> 0 \<le> top_k \<longrightarrow>
        search_by_type E s entity_type q top_k
          = Inr (map to_item (take (nat top_k)
                   (matching (type_store s entity_type)
                      (Some (WAnd [WEq (asc ''type'') (MStr entity_type),
                                   WEq (asc ''status'') (MStr (type_status entity_type))])))))
        \<and> list_all (has_type_and_status entity_type (type_status entity_type))
             (map to_item (take (nat top_k)
                   (matching (type_store s entity_type)
                      (Some (WAnd [WEq (asc ''type'') (MStr entity_type),
                                   WEq (asc ''status'') (MStr (type_status entity_type))]))))))
   \<and> (no_query q \<and> top_k < 0 \<longrightarrow> search_by_type E s entity_type q top_k = Inl OverflowError)"
proof -
  have A: "encode_reply E query = None \<Longrightarrow> recall E s query top_k include_deprecated = Inl RuntimeError"
    by (simp add: recall_def search_def vector_search_encoder_down Let_def)
  have B: "recall E s query top_k include_deprecated = Inr r \<Longrightarrow>
        rr_note r = (if encoder_ready E then None else Some DEGRADED_NOTE)"
    by (auto simp: recall_def Let_def split: sum.splits if_splits)
  have C: "(case recall E s query top_k include_deprecated of
                  Inl _ \<Rightarrow> False
                | Inr r' \<Rightarrow> rr_note r' = (if encoder_ready E then None else Some DEGRADED_NOTE)
                    \<and> rr_current_episode r' = current_episode s
                    \<and> rr_recent_messages r' = py_last_n 5 (current_messages s))"
    if enc: "encode_reply E query = Some v" and k: "0 \<le> top_k"
      and i1: "index_answers E (project_store s) v top_k
             (Some (if include_deprecated then WNe (asc ''type'') (MStr (asc ''Episode''))
                    else WAnd [WNe (asc ''type'') (MStr (asc ''Episode'')),
                               WEq (asc ''status'') (MStr (asc ''active''))]))"
      and i2: "index_answers E (project_store s) v top_k
             (Some (WAnd [WEq (asc ''type'') (MStr (asc ''Episode'')),
                          WEq (asc ''status'') (MStr (asc ''completed''))]))"
      and i3: "index_answers E (user_store s) v top_k
             (if include_deprecated then None else Some (WEq (asc ''status'') (MStr (asc ''active''))))"
  proof -
    obtain x1 where x1: "vector_search E (project_store s) query top_k
             (Some (if include_deprecated then WNe (asc ''type'') (MStr (asc ''Episode''))
                    else WAnd [WNe (asc ''type'') (MStr (asc ''Episode'')),
                               WEq (asc ''status'') (MStr (asc ''active''))])) False = Inr x1"
      using vector_search_answers [OF enc i1 k, of False] by blast
    obtain x2 where x2: "vector_search E (project_store s) query top_k
             (Some (WAnd [WEq (asc ''type'') (MStr (asc ''Episode'')),
                          WEq (asc ''status'') (MStr (asc ''completed''))])) False = Inr x2"
      using vector_search_answers [OF enc i2 k, of False] by blast
    obtain x3 where x3: "vector_search E (user_store s) query top_k
             (if include_deprecated then None else Some (WEq (asc ''status'') (MStr (asc ''active'')))) False
             = Inr x3"
      using vector_search_answers [OF enc i3 k, of False] by blast
    show ?thesis
      using x1 x2 x3
      by (cases include_deprecated) (simp_all add: recall_def search_def Let_def)
  qed
  have D: "no_query q \<Longrightarrow>
        search_by_type E' s entity_type q top_k
          = get_by_type (type_store s entity_type) entity_type top_k (type_status entity_type)" for E'
    by (auto simp: no_query_def search_by_type_def type_store_def type_status_def Let_def
        USER_LEVEL_TYPES_def is_user_level_def)
  note G = get_by_type_scan [of "type_store s entity_type" entity_type top_k "type_status entity_type"]
  have F: "no_query q \<Longrightarrow> 0 \<le> top_k \<Longrightarrow>
        search_by_type E s entity_type q top_k
          = Inr (map to_item (take (nat top_k)
                   (matching (type_store s entity_type)
                      (Some (WAnd [WEq (asc ''type'') (MStr entity_type),
                                   WEq (asc ''status'') (MStr (type_status entity_type))])))))"
    using D [of E] G by simp
  have H: "no_query q \<Longrightarrow> top_k < 0 \<Longrightarrow> search_by_type E s entity_type q top_k = Inl OverflowError"
    using D [of E] G by simp
  show ?thesis
    using A B C D [of E] D [of "worker_down E"] F H
      matching_items [of entity_type "type_status entity_type" "nat top_k" "type_store s entity_type"]
    by simp
qed

text \<open>
  Worker down: \<open>recall\<close> raises. Worker up but not ready at the call: the result is
  tagged. Worker down, no query: \<open>search_by_type\<close> returns the stored Preference, and
  raises \<open>OverflowError\<close> for \<open>top_k = -1\<close>.
\<close>

theorem recall_needs_encoder_witness:
  "encode_reply (worker_down (quiet_env 1800000000000000)) (asc ''sqlite'') = None
   \<and> recall (worker_down (quiet_env 1800000000000000)) routing_state (asc ''sqlite'') 5 False
       = Inl RuntimeError
   \<and> encode_reply ((quiet_env 1800000000000000)\<lparr>encoder_ready := False\<rparr>) (asc ''sqlite'') = Some [1, 0]
   \<and> recall ((quiet_env 1800000000000000)\<lparr>encoder_ready := False\<rparr>) routing_state (asc ''sqlite'') 5 False
       = Inr \<lparr>rr_episodes = [], rr_entities = [],
              rr_current_episode = Some (sample_episode ''11111111'' 1800000000000000),
              rr_recent_messages = [], rr_note = Some DEGRADED_NOTE\<rparr>
   \<and> no_query None
   \<and> search_by_type (worker_down (quiet_env 1800000000000000))
        (empty_manager\<lparr>user_store :=
           [\<lparr>d_id = asc ''ent_00000000'', d_embedding = [1, 0], d_content = asc ''tabs over spaces'',
             d_metadata = entity_metadata (asc ''Preference'') None None [] 1800000000000000\<rparr>]\<rparr>)
        (asc ''Preference'') None 10
       = Inr [\<lparr>i_id = asc ''ent_00000000'', i_content = asc ''tabs over spaces'',
               i_metadata = entity_metadata (asc ''Preference'') None None [] 1800000000000000,
               i_distance = None\<rparr>]
   \<and> search_by_type (worker_down (quiet_env 1800000000000000))
        (empty_manager\<lparr>user_store :=
           [\<lparr>d_id = asc ''ent_00000000'', d_embedding = [1, 0], d_content = asc ''tabs over spaces'',
             d_metadata = entity_metadata (asc ''Preference'') None None [] 1800000000000000\<rparr>]\<rparr>)
        (asc ''Preference'') None (- 1)
       = Inl OverflowError"
proof -
  let ?E = "quiet_env 1800000000000000"
  let ?L = "?E\<lparr>encoder_ready := False\<rparr>"
  let ?s = "empty_manager\<lparr>user_store :=
           [\<lparr>d_id = asc ''ent_00000000'', d_embedding = [1, 0], d_content = asc ''tabs over spaces'',
             d_metadata = entity_metadata (asc ''Preference'') None None [] 1800000000000000\<rparr>]\<rparr>"
  have e0: "encode_reply (worker_down ?E) (asc ''sqlite'') = None" by (simp add: worker_down_def)
  have e1: "encode_reply ?L (asc ''sqlite'') = Some [1, 0]" by (simp add: quiet_env_def)
  have nq: "no_query None" by (simp add: no_query_def)
  note tA = recall_needs_encoder [where E = "worker_down ?E" and s = routing_state and query = "asc ''sqlite''"
      and top_k = 5 and include_deprecated = False and q = None and entity_type = "asc ''Preference''"]
  note tB = recall_needs_encoder [where E = ?L and s = routing_state and query = "asc ''sqlite''"
      and top_k = 5 and include_deprecated = False and q = None and entity_type = "asc ''Preference''"
      and v = "[1, 0]"
      and r = "\<lparr>rr_episodes = [], rr_entities = [],
              rr_current_episode = Some (sample_episode ''11111111'' 1800000000000000),
              rr_recent_messages = [], rr_note = Some DEGRADED_NOTE\<rparr>"]
  note tC = recall_needs_encoder [where E = "worker_down ?E" and s = ?s and query = "asc ''sqlite''"
      and top_k = 10 and include_deprecated = False and q = None and entity_type = "asc ''Preference''"]
  note tD = recall_needs_encoder [where E = "worker_down ?E" and s = ?s and query = "asc ''sqlite''"
      and top_k = "- 1" and include_deprecated = False and q = None and entity_type = "asc ''Preference''"]
  have A: "recall (worker_down ?E) routing_state (asc ''sqlite'') 5 False = Inl RuntimeError"
    using tA e0 by blast
  have ia: "index_answers ?L c v k w" for c v k w
    by (simp add: index_answers_def quiet_env_def)
  have B0: "(case recall ?L routing_state (asc ''sqlite'') 5 False of
                  Inl _ \<Rightarrow> False
                | Inr r' \<Rightarrow> rr_note r' = (if encoder_ready ?L then None else Some DEGRADED_NOTE)
                    \<and> rr_current_episode r' = current_episode routing_state
                    \<and> rr_recent_messages r' = py_last_n 5 (current_messages routing_state))"
    using tB e1 ia by simp
  have B: "recall ?L routing_state (asc ''sqlite'') 5 False
       = Inr \<lparr>rr_episodes = [], rr_entities = [],
              rr_current_episode = Some (sample_episode ''11111111'' 1800000000000000),
              rr_recent_messages = [], rr_note = Some DEGRADED_NOTE\<rparr>"
    using B0
    by (simp add: recall_def search_def vector_search_def encode_text_def format_results_def Let_def
        quiet_env_def routing_state_def empty_manager_def py_last_n_def)
  have k: "(0::int) \<le> 10" "(- 1::int) < 0" by simp_all
  have C0: "search_by_type (worker_down ?E) ?s (asc ''Preference'') None 10
      = Inr (map to_item (take (nat 10)
                   (matching (type_store ?s (asc ''Preference''))
                      (Some (WAnd [WEq (asc ''type'') (MStr (asc ''Preference'')),
                                   WEq (asc ''status'') (MStr (type_status (asc ''Preference'')))])))))"
    using tC nq k(1) by blast
  have C: "search_by_type (worker_down ?E) ?s (asc ''Preference'') None 10
       = Inr [\<lparr>i_id = asc ''ent_00000000'', i_content = asc ''tabs over spaces'',
               i_metadata = entity_metadata (asc ''Preference'') None None [] 1800000000000000,
               i_distance = None\<rparr>]"
    unfolding C0
    by (simp add: matching_def type_store_def type_status_def is_user_level_def
        to_item_def entity_metadata_def asc_def)
  have D: "search_by_type (worker_down ?E) ?s (asc ''Preference'') None (- 1) = Inl OverflowError"
    using tD nq k(2) by blast
  from e0 A e1 B nq C D show ?thesis by blast
qed

text \<open>
  C3, as stated, fails: with the worker unavailable (not ready, and \<open>encode_text\<close> raising)
  \<open>recall\<close> raises \<open>RuntimeError\<close> instead of returning a degraded result; and
  \<open>search_by_type\<close> without a query raises \<open>OverflowError\<close> for \<open>top_k = -1\<close> instead of
  returning the records of a metadata scan.
\<close>

theorem recall_raises_counterexample:
  "encoder_ready (worker_down (quiet_env 1800000000000000)) = False
   \<and> encode_text (worker_down (quiet_env 1800000000000000)) (asc ''sqlite'') = Inl RuntimeError
   \<and> recall (worker_down (quiet_env 1800000000000000)) empty_manager (asc ''sqlite'') 5 False
       = Inl RuntimeError
   \<and> search_by_type (worker_down (quiet_env 1800000000000000)) empty_manager (asc ''Preference'') None (- 1)
       = Inl OverflowError"
  by (simp add: recall_def search_def vector_search_def encode_text_def worker_down_def Let_def
      search_by_type_def get_by_type_def collection_get_def)

section \<open>Keyword fallback of the vector store\<close>

lemma py_split_tokens:
  "\<not> list_ex py_isspace cur \<Longrightarrow>
   list_all (\<lambda>t. t \<noteq> [] \<and> \<not> list_ex py_isspace t) (py_split cur cs)"
  by (induction cs arbitrary: cur) (auto simp: list_ex_iff)

lemma py_split_concat: "concat (py_split cur cs) = cur @ filter (\<lambda>c. \<not> py_isspace c) cs"
  by (induction cs arbitrary: cur) auto

lemma py_strip_no_space: "\<not> list_ex py_isspace t \<Longrightarrow> py_strip t = t"
proof -
  assume a: "\<not> list_ex py_isspace t"
  have d: "dropWhile py_isspace xs = xs" if "\<not> list_ex py_isspace xs" for xs
    using that by (cases xs) (auto simp: list_ex_iff)
  have "\<not> list_ex py_isspace (rev t)" using a by (simp add: list_ex_iff)
  then show ?thesis using a by (simp add: py_strip_def d)
qed

lemma query_keywords_tokens: "query_keywords query = spec_tokens query"
proof -
  have all: "list_all (\<lambda>t. t \<noteq> [] \<and> \<not> list_ex py_isspace t) (py_split [] query)"
    by (rule py_split_tokens) simp
  have s: "py_strip t = t" if "t \<in> set (py_split [] query)" for t
    using all that py_strip_no_space by (auto simp: list_all_iff)
  have "filter (\<lambda>w. length (py_strip w) \<ge> 2) (py_split [] query) = filter (\<lambda>t. length t \<ge> 2) (py_split [] query)"
    by (rule filter_cong) (auto simp: s)
  moreover have "map py_strip (filter (\<lambda>t. length t \<ge> 2) (py_split [] query)) = filter (\<lambda>t. length t \<ge> 2) (py_split [] query)"
    by (rule map_idI) (auto simp: s)
  ultimately show ?thesis by (simp add: query_keywords_def spec_tokens_def)
qed

lemma score_loop_filter:
  "score_loop E kws ds acc =
     acc @ filter (\<lambda>p. snd p > 0 \<or> kws = []) (map (\<lambda>d. (to_item d, kw_score E kws (d_content d))) ds)"
  by (induction ds arbitrary: acc) (auto simp: Let_def)

lemma sort_key_map_pair:
  "map fst (sort_key (\<lambda>p. - int (snd p)) (map (\<lambda>i. (i, f i)) xs)) = sort_key (\<lambda>i. - int (f i)) xs"
proof (induction xs)
  case Nil
  then show ?case by simp
next
  case (Cons x xs)
  have ins: "map fst (insort_key (\<lambda>p. - int (snd p)) (x, f x) ys) = insort_key (\<lambda>i. - int (f i)) x (map fst ys)"
    if "list_all (\<lambda>p. snd p = f (fst p)) ys" for ys
    using that by (induction ys) auto
  have inv: "list_all (\<lambda>p. snd p = f (fst p)) (sort_key (\<lambda>p. - int (snd p)) (map (\<lambda>i. (i, f i)) xs))"
    by (simp add: list_all_iff)
  show ?case using Cons ins [OF inv] by simp
qed

lemma keyword_search_rank:
  assumes "0 \<le> top_k"
  shows "keyword_search E c query top_k w = Inr (spec_keyword_rank E c query top_k w)"
proof -
  let ?kws = "spec_tokens query"
  let ?f = "\<lambda>i. spec_score E query (i_content i)"
  let ?ds = "take (nat (top_k * 10)) (matching c w)"
  have get: "collection_get c w (top_k * 10) = Inr ?ds"
    using assms by (simp add: collection_get_def)
  have sc: "kw_score E ?kws (d_content d) = ?f (to_item d)" for d
    by (simp add: kw_score_def spec_score_def to_item_def)
  have m: "filter (\<lambda>p. snd p > 0 \<or> ?kws = []) (map (\<lambda>d. (to_item d, kw_score E ?kws (d_content d))) ?ds)
      = map (\<lambda>i. (i, ?f i)) (filter (\<lambda>i. ?f i > 0 \<or> ?kws = []) (map to_item ?ds))"
    by (induction ?ds) (auto simp: sc filter_map comp_def)
  let ?kept = "filter (\<lambda>i. ?f i > 0 \<or> ?kws = []) (map to_item ?ds)"
  have t: "map fst (take (nat top_k) (sort_key (\<lambda>p. - int (snd p)) (map (\<lambda>i. (i, ?f i)) ?kept)))
      = take (nat top_k) (sort_key (\<lambda>i. - int (?f i)) ?kept)"
    using sort_key_map_pair [of ?f ?kept] by (simp add: take_map [symmetric])
  show ?thesis
  proof (cases "?ds = []")
    case True
    have "keyword_search E c query top_k w = Inr []"
      unfolding keyword_search_def get Let_def True by simp
    moreover have "spec_keyword_rank E c query top_k w = []"
      unfolding spec_keyword_rank_def True by simp
    ultimately show ?thesis by simp
  next
    case False
    then show ?thesis
      using assms t
      by (simp add: keyword_search_def get query_keywords_tokens Let_def score_loop_filter m
          py_take_def spec_keyword_rank_def)
  qed
qed


lemma spec_tokens_long: "list_all (\<lambda>t. length t \<ge> 2 \<and> \<not> list_ex py_isspace t) (spec_tokens query)"
  using py_split_tokens [of "[]" query] by (auto simp: spec_tokens_def list_all_iff)

text \<open>
  C4. When the query has been encoded and the index fails with the integrity error,
  \<open>search\<close> returns the result of the keyword search instead of raising, for every
  query and every \<open>top_k \<ge> 0\<close>. That result is the ranking the specification
  describes: tokens are the whitespace-separated pieces of at least 2 characters (they
  hold no whitespace, and together they are the query without its whitespace); a
  candidate's score is the number of tokens occurring in its content ignoring case;
  returned items have a positive score unless there is no token; they are sorted by
  score, highest first; there are at most \<open>top_k\<close> of them; and each is the id, content
  and metadata of a stored record that passes the filter, with no distance field.
\<close>

theorem search_falls_back_to_keywords:
  assumes "encode_reply E query = Some v"
    and "collection_query E c v top_k w = QRaise msg"
    and "is_index_error E msg"
    and "0 \<le> top_k"
  shows "search E c query top_k w include_distances = Inr (projr (keyword_search E c query top_k w))
    \<and> keyword_search E c query top_k w = Inr (spec_keyword_rank E c query top_k w)
    \<and> length (projr (keyword_search E c query top_k w)) \<le> nat top_k
    \<and> sorted (map (\<lambda>i. - int (spec_score E query (i_content i)))
         (projr (keyword_search E c query top_k w)))
    \<and> list_all (\<lambda>i. spec_score E query (i_content i) > 0 \<or> spec_tokens query = [])
         (projr (keyword_search E c query top_k w))
    \<and> list_all plain_item (projr (keyword_search E c query top_k w))
    \<and> set (projr (keyword_search E c query top_k w))
         \<subseteq> to_item ` set (projr (collection_get c w (top_k * 10)))
    \<and> collection_get c w (top_k * 10) = Inr (take (nat (top_k * 10)) (matching c w))
    \<and> list_all (\<lambda>t. length t \<ge> 2 \<and> \<not> list_ex py_isspace t) (spec_tokens query)
    \<and> concat (py_split [] query) = filter (\<lambda>ch. \<not> py_isspace ch) query"
proof -
  let ?f = "\<lambda>i. - int (spec_score E query (i_content i))"
  let ?kept = "filter (\<lambda>i. spec_score E query (i_content i) > 0 \<or> spec_tokens query = [])
                 (map to_item (take (nat (top_k * 10)) (matching c w)))"
  let ?ks = "projr (keyword_search E c query top_k w)"
  have k: "keyword_search E c query top_k w = Inr (spec_keyword_rank E c query top_k w)"
    by (rule keyword_search_rank [OF assms(4)])
  have get: "collection_get c w (top_k * 10) = Inr (take (nat (top_k * 10)) (matching c w))"
    using assms(4) by (simp add: collection_get_def)
  have r: "?ks = take (nat top_k) (sort_key ?f ?kept)"
    by (simp add: k spec_keyword_rank_def)
  have a: "search E c query top_k w include_distances = Inr ?ks"
    using assms k by (simp add: search_def vector_search_def encode_text_def)
  have b: "length ?ks \<le> nat top_k"
    by (simp add: r)
  have "sorted (map ?f (sort_key ?f ?kept))" by (rule sorted_sort_key)
  then have "sorted (take (nat top_k) (map ?f (sort_key ?f ?kept)))" by simp
  then have d: "sorted (map ?f ?ks)"
    by (simp add: r take_map)
  have sub: "set ?ks \<subseteq> set ?kept"
    using set_take_subset [of "nat top_k" "sort_key ?f ?kept"] by (simp add: r)
  have e: "list_all (\<lambda>i. spec_score E query (i_content i) > 0 \<or> spec_tokens query = []) ?ks"
    using sub by (auto simp: list_all_iff)
  have f: "list_all plain_item ?ks"
    using sub by (auto simp: list_all_iff plain_item_def to_item_def)
  have g: "set ?ks \<subseteq> to_item ` set (projr (collection_get c w (top_k * 10)))"
    using sub by (auto simp: get)
  have h: "concat (py_split [] query) = filter (\<lambda>ch. \<not> py_isspace ch) query"
    using py_split_concat [of "[]" query] by simp
  from a k b d e f g get spec_tokens_long [of query] h
  show ?thesis by blast
qed

text \<open>
  Three stored notes, the query \<open>cache  SQLITE a\<close> and an index that raises
  \<open>Error finding id\<close>: the note matching both tokens comes first, the note matching one
  comes second, the note matching none is left out.
\<close>

theorem search_falls_back_to_keywords_witness:
  "encode_reply (broken_index (quiet_env 0)) (asc ''cache  SQLITE a'') = Some [1, 0]
   \<and> collection_query (broken_index (quiet_env 0))
        [note_doc ''00000001'' ''Redis cache'', note_doc ''00000002'' ''sqlite as cache'', note_doc ''00000003'' ''colors'']
        [1, 0] 2 (Some (WEq (asc ''status'') (MStr (asc ''active''))))
       = QRaise (asc ''Error finding id 42'')
   \<and> is_index_error (broken_index (quiet_env 0)) (asc ''Error finding id 42'')
   \<and> (0 :: int) \<le> 2
   \<and> spec_tokens (asc ''cache  SQLITE a'') = [asc ''cache'', asc ''SQLITE'']
   \<and> search (broken_index (quiet_env 0))
        [note_doc ''00000001'' ''Redis cache'', note_doc ''00000002'' ''sqlite as cache'', note_doc ''00000003'' ''colors'']
        (asc ''cache  SQLITE a'') 2 (Some (WEq (asc ''status'') (MStr (asc ''active'')))) True
       = Inr [to_item (note_doc ''00000002'' ''sqlite as cache''), to_item (note_doc ''00000001'' ''Redis cache'')]"
proof -
  let ?E = "broken_index (quiet_env 0)"
  let ?c = "[note_doc ''00000001'' ''Redis cache'', note_doc ''00000002'' ''sqlite as cache'', note_doc ''00000003'' ''colors'']"
  let ?w = "Some (WEq (asc ''status'') (MStr (asc ''active'')))"
  let ?q = "asc ''cache  SQLITE a''"
  have h1: "encode_reply ?E ?q = Some [1, 0]" by (simp add: broken_index_def quiet_env_def)
  have h2: "collection_query ?E ?c [1, 0] 2 ?w = QRaise (asc ''Error finding id 42'')"
    by (simp add: broken_index_def)
  have h3: "is_index_error ?E (asc ''Error finding id 42'')"
    by (simp add: is_index_error_def asc_def)
  have h4: "(0 :: int) \<le> 2" by simp
  have tok: "spec_tokens ?q = [asc ''cache'', asc ''SQLITE'']"
    by (simp add: spec_tokens_def asc_def py_isspace_def)
  have low: "str_lower ?E = map (\<lambda>c. if 65 \<le> c \<and> c \<le> 90 then c + 32 else c)"
    by (simp add: broken_index_def quiet_env_def)
  have s1: "spec_score ?E ?q (asc ''Redis cache'') = 1"
    unfolding spec_score_def tok low by (simp add: asc_def)
  have s2: "spec_score ?E ?q (asc ''sqlite as cache'') = 2"
    unfolding spec_score_def tok low by (simp add: asc_def)
  have s3: "spec_score ?E ?q (asc ''colors'') = 0"
    unfolding spec_score_def tok low by (simp add: asc_def)
  have get: "take (nat (2 * 10)) (matching ?c ?w) = ?c"
    by (simp add: matching_def note_doc_def)
  have rank: "spec_keyword_rank ?E ?c ?q 2 ?w
      = [to_item (note_doc ''00000002'' ''sqlite as cache''), to_item (note_doc ''00000001'' ''Redis cache'')]"
    unfolding spec_keyword_rank_def get
    by (simp add: to_item_def note_doc_def s1 s2 s3 tok)
  note t = search_falls_back_to_keywords [OF h1 h2 h3 h4, of True]
  have "search ?E ?c ?q 2 ?w True = Inr (projr (keyword_search ?E ?c ?q 2 ?w))" using t by blast
  moreover have "keyword_search ?E ?c ?q 2 ?w = Inr (spec_keyword_rank ?E ?c ?q 2 ?w)" using t by blast
  ultimately have res: "search ?E ?c ?q 2 ?w True
      = Inr [to_item (note_doc ''00000002'' ''sqlite as cache''), to_item (note_doc ''00000001'' ''Redis cache'')]"
    by (simp add: rank)
  from h1 h2 h3 h4 tok res show ?thesis by blast
qed

section \<open>Candidate detection\<close>

lemma new_candidate_view:
  "candidate_view (fst (new_candidate E s ty x content conf meth)) = (ty, take 200 x, conf, meth)"
  by (simp add: new_candidate_def draw_uuid_def read_clock_def candidate_view_def)

lemma accepted_append:
  "accepted seen (xs @ ys) = accepted seen xs @ accepted (seen \<union> set (accepted seen xs)) ys"
  by (induction xs arbitrary: seen) auto

lemma accepted_set: "set (accepted seen xs) = {x \<in> set xs. length x > 3 \<and> x \<notin> seen}"
  by (induction xs arbitrary: seen) auto

lemma accepted_distinct: "distinct (accepted seen xs)"
  by (induction xs arbitrary: seen) (auto simp: accepted_set)

lemma match_loop_view:
  "map candidate_view (fst (match_loop E ty r content ms (cands, seen, s)))
     = map candidate_view cands
       @ map (\<lambda>x. (ty, take 200 x, rl_min_confidence r + PATTERN_BONUS, asc ''pattern''))
           (accepted seen (map extracted_of ms))
   \<and> fst (snd (match_loop E ty r content ms (cands, seen, s)))
     = seen \<union> set (accepted seen (map extracted_of ms))"
proof (induction ms arbitrary: cands seen s)
  case Nil
  then show ?case by simp
next
  case (Cons m ms)
  show ?case
  proof (cases "length (extracted_of m) > 3 \<and> extracted_of m \<notin> seen")
    case True
    obtain c s' where nc: "new_candidate E s ty (extracted_of m) content (rl_min_confidence r + PATTERN_BONUS) (asc ''pattern'') = (c, s')"
      by (cases "new_candidate E s ty (extracted_of m) content (rl_min_confidence r + PATTERN_BONUS) (asc ''pattern'')")
    have v: "candidate_view c = (ty, take 200 (extracted_of m), rl_min_confidence r + PATTERN_BONUS, asc ''pattern'')"
      using new_candidate_view [of E s ty "extracted_of m" content "rl_min_confidence r + PATTERN_BONUS" "asc ''pattern''"] nc
      by simp
    have ne: "extracted_of m \<noteq> []" using True by auto
    show ?thesis
      using True ne nc v Cons.IH [of "cands @ [c]" "insert (extracted_of m) seen" s']
      by (simp add: Let_def)
  next
    case False
    then show ?thesis using Cons.IH [of cands seen s] by (auto simp: Let_def)
  qed
qed

lemma pattern_loop_view:
  "map candidate_view (fst (pattern_loop E ty r content ps (cands, seen, s)))
     = map candidate_view cands
       @ map (\<lambda>x. (ty, take 200 x, rl_min_confidence r + PATTERN_BONUS, asc ''pattern''))
           (accepted seen (map extracted_of (concat (map (\<lambda>p. re_findall E p content) ps))))
   \<and> fst (snd (pattern_loop E ty r content ps (cands, seen, s)))
     = seen \<union> set (accepted seen (map extracted_of (concat (map (\<lambda>p. re_findall E p content) ps))))"
proof (induction ps arbitrary: cands seen s)
  case Nil
  then show ?case by simp
next
  case (Cons p ps)
  obtain c1 seen1 s1 where m: "match_loop E ty r content (re_findall E p content) (cands, seen, s) = (c1, seen1, s1)"
    by (cases "match_loop E ty r content (re_findall E p content) (cands, seen, s)") auto
  note ml = match_loop_view [of E ty r content "re_findall E p content" cands seen s]
  show ?case
    using ml Cons.IH [of c1 seen1 s1]
    by (simp add: m accepted_append Un_assoc)
qed

lemma sentence_loop_view:
  "map candidate_view (fst (sentence_loop E ty r content sens (cands, seen, s)))
     = map candidate_view cands
       @ (case find (\<lambda>sentence. has_keyword r sentence \<and> length sentence > 5) sens of
            None \<Rightarrow> []
          | Some sentence \<Rightarrow>
              if sentence \<in> seen then []
              else [(ty, take 200 sentence, rl_min_confidence r, asc ''keyword'')])"
proof (induction sens)
  case Nil
  then show ?case by simp
next
  case (Cons sen sens)
  obtain c s' where nc: "new_candidate E s ty sen content (rl_min_confidence r) (asc ''keyword'') = (c, s')"
    by (cases "new_candidate E s ty sen content (rl_min_confidence r) (asc ''keyword'')")
  have v: "candidate_view c = (ty, take 200 sen, rl_min_confidence r, asc ''keyword'')"
    using new_candidate_view [of E s ty sen content "rl_min_confidence r" "asc ''keyword''"] nc by simp
  show ?case using Cons nc v by simp
qed

text \<open>
  C7, as amended. One round of the loop of \<open>_detect_candidates\<close> over the rule table
  (\<open>type_stage\<close> is the body of that loop), for every text, every rule and every state of
  the pass. The patterns are applied in order and their matches are taken in order; the
  extracted string of a match is its group, or its non-empty groups joined by a space,
  stripped. A match yields a candidate only when its extracted string is longer than 3
  characters and has not been extracted before in the pass, so the strings that yield
  candidates are distinct; such a candidate has the confidence \<open>min_confidence + 0.2\<close>
  and the first 200 characters of the string as content. A keyword candidate is added
  only if the text holds a keyword of the type and the pass holds no candidate of the
  type (so the patterns yielded none): it is the first sentence (split at the three full
  stops of the class and newline) that holds a keyword and is longer than 5 characters,
  at \<open>min_confidence\<close>, and it is left out when that sentence was extracted before.
\<close>

theorem type_stage_extracts:
  "map candidate_view (fst (type_stage E entity_type rules content (candidates, seen, s)))
     = map candidate_view candidates
       @ map (\<lambda>x. (entity_type, take 200 x, rl_min_confidence rules + PATTERN_BONUS, asc ''pattern''))
           (accepted seen (all_matches E rules content))
       @ (if has_keyword rules content \<and> entity_type \<notin> set (map c_type candidates)
             \<and> accepted seen (all_matches E rules content) = []
          then (case keyword_sentence rules content of
                  None \<Rightarrow> []
                | Some sentence \<Rightarrow>
                    if sentence \<in> seen then []
                    else [(entity_type, take 200 sentence, rl_min_confidence rules, asc ''keyword'')])
          else [])
   \<and> distinct (accepted seen (all_matches E rules content))
   \<and> set (accepted seen (all_matches E rules content))
       = {x \<in> set (all_matches E rules content). length x > 3 \<and> x \<notin> seen}
   \<and> rules_loop E content ((entity_type, rules) # rest) st
       = rules_loop E content rest (type_stage E entity_type rules content st)
   \<and> extracted_of (MOne g) = py_strip g
   \<and> extracted_of (MTuple groups) = py_strip (py_join (asc '' '') (filter (\<lambda>g. g \<noteq> []) groups))"
proof -
  let ?acc = "accepted seen (all_matches E rules content)"
  let ?pv = "map (\<lambda>x. (entity_type, take 200 x, rl_min_confidence rules + PATTERN_BONUS, asc ''pattern'')) ?acc"
  obtain c1 seen1 s1 where p: "pattern_loop E entity_type rules content (rl_patterns rules) (candidates, seen, s) = (c1, seen1, s1)"
    by (cases "pattern_loop E entity_type rules content (rl_patterns rules) (candidates, seen, s)") auto
  note pl = pattern_loop_view [of E entity_type rules content "rl_patterns rules" candidates seen s]
  have v1: "map candidate_view c1 = map candidate_view candidates @ ?pv"
    and sn: "seen1 = seen \<union> set ?acc"
    using pl by (simp_all add: p all_matches_def)
  have ty: "map c_type c1 = map (\<lambda>v. fst v) (map candidate_view c1)"
    by (simp add: candidate_view_def comp_def)
  have types: "set (map c_type c1) = set (map c_type candidates) \<union> (if ?acc = [] then {} else {entity_type})"
  proof -
    have "map c_type candidates = map (\<lambda>v. fst v) (map candidate_view candidates)"
      by (simp add: candidate_view_def comp_def)
    then show ?thesis unfolding ty v1 by (cases ?acc) (auto simp: comp_def)
  qed
  have main: "map candidate_view (fst (type_stage E entity_type rules content (candidates, seen, s)))
     = map candidate_view candidates @ ?pv
       @ (if has_keyword rules content \<and> entity_type \<notin> set (map c_type candidates) \<and> ?acc = []
          then (case keyword_sentence rules content of
                  None \<Rightarrow> []
                | Some sentence \<Rightarrow>
                    if sentence \<in> seen then []
                    else [(entity_type, take 200 sentence, rl_min_confidence rules, asc ''keyword'')])
          else [])"
  proof (cases "has_keyword rules content \<and> entity_type \<notin> set (map c_type candidates) \<and> ?acc = []")
    case True
    then have "entity_type \<notin> set (map c_type c1)" using types by simp
    moreover have p': "pattern_loop E entity_type rules content (rl_patterns rules) (candidates, seen, s) = (c1, seen, s1)"
      using p sn True by simp
    ultimately show ?thesis
      using True v1
        sentence_loop_view [of E entity_type rules content "split_on sentence_delimiter [] content" c1 seen s1]
      by (simp add: type_stage_def p' keyword_stage_def keyword_sentence_def)
  next
    case False
    then have "\<not> has_keyword rules content \<or> entity_type \<in> set (map c_type c1)"
      using types by auto
    then show ?thesis
      using False v1 by (auto simp: type_stage_def p keyword_stage_def)
  qed
  obtain a b c where st: "st = (a, b, c)" by (cases st) auto
  show ?thesis
    using main accepted_distinct [of seen "all_matches E rules content"]
      accepted_set [of seen "all_matches E rules content"]
    by (simp add: type_stage_def extracted_of_def)
qed

text \<open>
  The Preference rule on two lines \<open>prefer tabs!\<close>: two matches, one candidate \<open>tabs!\<close>
  at 0.8. On \<open>prefer    x\<close>: the match is too short, and the sentence becomes the keyword
  candidate at 0.6.
\<close>

theorem type_stage_extracts_witness:
  "all_matches prefer_env PREFERENCE_RULE (asc ''prefer tabs!'' @ [10] @ asc ''prefer tabs!'')
       = [asc ''tabs!'', asc ''tabs!'']
   \<and> accepted {} [asc ''tabs!'', asc ''tabs!''] = [asc ''tabs!'']
   \<and> map candidate_view (fst (type_stage prefer_env (asc ''Preference'') PREFERENCE_RULE
          (asc ''prefer tabs!'' @ [10] @ asc ''prefer tabs!'') ([], {}, empty_manager)))
       = [(asc ''Preference'', asc ''tabs!'', 8 / 10, asc ''pattern'')]
   \<and> all_matches prefer_env PREFERENCE_RULE (asc ''prefer    x'') = [asc ''x'']
   \<and> accepted {} [asc ''x''] = []
   \<and> has_keyword PREFERENCE_RULE (asc ''prefer    x'')
   \<and> keyword_sentence PREFERENCE_RULE (asc ''prefer    x'') = Some (asc ''prefer    x'')
   \<and> map candidate_view (fst (type_stage prefer_env (asc ''Preference'') PREFERENCE_RULE
          (asc ''prefer    x'') ([], {}, empty_manager)))
       = [(asc ''Preference'', asc ''prefer    x'', 6 / 10, asc ''keyword'')]"
proof -
  let ?t2 = "asc ''prefer tabs!'' @ [10] @ asc ''prefer tabs!''"
  let ?t1 = "asc ''prefer    x''"
  have m2: "all_matches prefer_env PREFERENCE_RULE ?t2 = [asc ''tabs!'', asc ''tabs!'']"
    by (simp add: all_matches_def PREFERENCE_RULE_def prefer_env_def PREFER_PATTERN_def extracted_of_def
        py_strip_def py_isspace_def asc_def)
  have a2: "accepted {} [asc ''tabs!'', asc ''tabs!''] = [asc ''tabs!'']"
    by (simp add: asc_def)
  have m1: "all_matches prefer_env PREFERENCE_RULE ?t1 = [asc ''x'']"
    by (simp add: all_matches_def PREFERENCE_RULE_def prefer_env_def PREFER_PATTERN_def extracted_of_def
        py_strip_def py_isspace_def asc_def)
  have a1: "accepted {} [asc ''x''] = []"
    by (simp add: asc_def)
  have k1: "has_keyword PREFERENCE_RULE ?t1"
    by (simp add: has_keyword_def PREFERENCE_RULE_def asc_def)
  have ks: "keyword_sentence PREFERENCE_RULE ?t1 = Some ?t1"
    by (simp add: keyword_sentence_def has_keyword_def PREFERENCE_RULE_def sentence_delimiter_def asc_def)
  have mc: "rl_min_confidence PREFERENCE_RULE = 6 / 10" by (simp add: PREFERENCE_RULE_def)
  have tk: "take 200 (asc ''tabs!'') = asc ''tabs!''" "take 200 ?t1 = ?t1" by (simp_all add: asc_def)
  note t2 = type_stage_extracts [where E = prefer_env and entity_type = "asc ''Preference''"
      and rules = PREFERENCE_RULE and content = ?t2 and candidates = "[]" and seen = "{}"
      and s = empty_manager and rest = "[]" and st = "([], {}, empty_manager)" and g = "[]" and groups = "[]"]
  note t1 = type_stage_extracts [where E = prefer_env and entity_type = "asc ''Preference''"
      and rules = PREFERENCE_RULE and content = ?t1 and candidates = "[]" and seen = "{}"
      and s = empty_manager and rest = "[]" and st = "([], {}, empty_manager)" and g = "[]" and groups = "[]"]
  have r2: "map candidate_view (fst (type_stage prefer_env (asc ''Preference'') PREFERENCE_RULE ?t2 ([], {}, empty_manager)))
       = [(asc ''Preference'', asc ''tabs!'', 8 / 10, asc ''pattern'')]"
    using conjunct1 [OF t2] unfolding m2 a2
    by (simp add: mc tk PATTERN_BONUS_def)
  have r1: "map candidate_view (fst (type_stage prefer_env (asc ''Preference'') PREFERENCE_RULE ?t1 ([], {}, empty_manager)))
       = [(asc ''Preference'', asc ''prefer    x'', 6 / 10, asc ''keyword'')]"
    using conjunct1 [OF t1] k1 unfolding m1 a1 ks
    by (simp add: mc tk)
  from m2 a2 r2 m1 a1 k1 ks r1 show ?thesis by blast
qed

text \<open>
  C7, as stated, fails on the text \<open>prefer    x\<close>: the second Preference pattern matches
  (group \<open>    x\<close>), yet the match yields no candidate, since the stripped group \<open>x\<close> is not
  longer than 3 characters; and although a pattern of the type matched, the keyword
  sentence is extracted. The pass returns the keyword candidate alone. Also, the groups
  of a match with several groups are joined by a space, not concatenated.
\<close>

theorem detect_candidates_counterexample:
  "(asc ''Preference'', PREFERENCE_RULE) \<in> set DETECTION_RULES
   \<and> PREFER_PATTERN \<in> set (rl_patterns PREFERENCE_RULE)
   \<and> re_findall prefer_env PREFER_PATTERN (asc ''prefer    x'') = [MOne (asc ''    x'')]
   \<and> map candidate_view (fst (detect_candidates prefer_env empty_manager (asc ''prefer    x'')))
       = [(asc ''Preference'', asc ''prefer    x'', 6 / 10, asc ''keyword'')]
   \<and> extracted_of (MTuple [asc ''store.py'', [], asc ''holds the index''])
       = asc ''store.py holds the index''"
proof -
  have e: "extracted_of (MTuple [asc ''store.py'', [], asc ''holds the index''])
       = asc ''store.py holds the index''"
    by (simp add: extracted_of_def py_strip_def py_isspace_def asc_def)
  have a: "(asc ''Preference'', PREFERENCE_RULE) \<in> set DETECTION_RULES"
    by (simp add: DETECTION_RULES_def PREFERENCE_RULE_def PREFER_PATTERN_def)
  have b: "PREFER_PATTERN \<in> set (rl_patterns PREFERENCE_RULE)"
    by (simp add: PREFERENCE_RULE_def)
  have c: "re_findall prefer_env PREFER_PATTERN (asc ''prefer    x'') = [MOne (asc ''    x'')]"
    by (simp add: prefer_env_def)
  have d: "map candidate_view (fst (detect_candidates prefer_env empty_manager (asc ''prefer    x'')))
       = [(asc ''Preference'', asc ''prefer    x'', 6 / 10, asc ''keyword'')]"
    by (simp add: detect_candidates_def detect_candidates_with_def DETECTION_RULES_def
        keyword_stage_def has_keyword_def extracted_of_def new_candidate_def draw_uuid_def
        read_clock_def candidate_view_def prefer_env_def PREFER_PATTERN_def quiet_env_def
        empty_manager_def sentence_delimiter_def py_strip_def py_isspace_def asc_def Let_def)
  from a b c d e show ?thesis by blast
qed

end
